theory Spec2Isabelle
  imports Main
begin

section \<open>Python values\<close>

text \<open>
  The chunk files are JSON: a chunk is a Python dict from string keys to JSON values.
  A dict is an association list in insertion order (the order \<open>json.dump\<close> writes);
  numbers are the integers the classifier writes (level, position, row and column counts).
  A Python \<open>str\<close> is the list of its characters, for the code points below 256.
\<close>

datatype json =
    JNull
  | JBool bool
  | JInt int
  | JStr string
  | JArr "json list"
  | JObj "(string \<times> json) list"

type_synonym pydict = "(string \<times> json) list"

type_synonym chunk = pydict

datatype py_error = AttributeError | TypeError | KeyError

text \<open>\<open>d.get(k, dflt)\<close>\<close>

definition dict_get :: "pydict \<Rightarrow> string \<Rightarrow> json \<Rightarrow> json" where
  "dict_get d k dflt = (case map_of d k of None \<Rightarrow> dflt | Some v \<Rightarrow> v)"

text \<open>
  \<open>str.isspace\<close> on one character, for the code points below 256:
  9 to 13, 28 to 32, 133 and 160.
\<close>

definition is_space :: "char \<Rightarrow> bool" where
  "is_space c =
     (let n = (of_char c :: nat)
      in (9 \<le> n \<and> n \<le> 13) \<or> (28 \<le> n \<and> n \<le> 32) \<or> n = 133 \<or> n = 160)"

text \<open>\<open>s.strip()\<close>\<close>

definition strip :: "string \<Rightarrow> string" where
  "strip s = rev (dropWhile is_space (rev (dropWhile is_space s)))"

text \<open>\<open>sep.join(xs)\<close>\<close>

fun str_join :: "string \<Rightarrow> string list \<Rightarrow> string" where
  "str_join sep [] = []"
| "str_join sep [x] = x"
| "str_join sep (x # y # ys) = x @ sep @ str_join sep (y # ys)"

text \<open>The truth value of a JSON value in an \<open>if\<close>.\<close>

fun truthy :: "json \<Rightarrow> bool" where
  "truthy JNull = False"
| "truthy (JBool b) = b"
| "truthy (JInt n) = (n \<noteq> 0)"
| "truthy (JStr s) = (s \<noteq> [])"
| "truthy (JArr xs) = (xs \<noteq> [])"
| "truthy (JObj d) = (d \<noteq> [])"

text \<open>\<open>s.startswith(p)\<close>, \<open>s.endswith(p)\<close> and \<open>p in s\<close> on strings.\<close>

fun startswith :: "string \<Rightarrow> string \<Rightarrow> bool" where
  "startswith s [] = True"
| "startswith [] (p # ps) = False"
| "startswith (c # cs) (p # ps) = (c = p \<and> startswith cs ps)"

definition endswith :: "string \<Rightarrow> string \<Rightarrow> bool" where
  "endswith s p = startswith (rev s) (rev p)"

fun str_contains :: "string \<Rightarrow> string \<Rightarrow> bool" where
  "str_contains [] p = (p = [])"
| "str_contains (c # cs) p = (startswith (c # cs) p \<or> str_contains cs p)"

section \<open>html_parser.py: the chunk data model\<close>

datatype ContentType =
    HEADING | PARAGRAPH | LIST | TABLE | DIVIDER | IMAGE | CODE_BLOCK | QUOTE
  | FORM | NAVIGATION | FOOTER | HEADER | SIDEBAR | UNKNOWN

text \<open>\<open>ContentType.value\<close>\<close>

fun content_type_value :: "ContentType \<Rightarrow> string" where
  "content_type_value HEADING = ''heading''"
| "content_type_value PARAGRAPH = ''paragraph''"
| "content_type_value LIST = ''list''"
| "content_type_value TABLE = ''table''"
| "content_type_value DIVIDER = ''divider''"
| "content_type_value IMAGE = ''image''"
| "content_type_value CODE_BLOCK = ''code_block''"
| "content_type_value QUOTE = ''quote''"
| "content_type_value FORM = ''form''"
| "content_type_value NAVIGATION = ''navigation''"
| "content_type_value FOOTER = ''footer''"
| "content_type_value HEADER = ''header''"
| "content_type_value SIDEBAR = ''sidebar''"
| "content_type_value UNKNOWN = ''unknown''"

record ContentChunk =
  content_type :: ContentType
  content :: string
  tag_name :: string
  attributes :: pydict
  level :: "int option"
  list_type :: "string option"
  table_info :: "pydict option"
  position :: "int option"

text \<open>\<open>ContentChunk.to_dict\<close>: the dict that is written to the chunk file.\<close>

definition to_dict :: "ContentChunk \<Rightarrow> chunk" where
  "to_dict self =
     [(''content_type'', JStr (content_type_value (content_type self))),
      (''content'', JStr (content self)),
      (''tag_name'', JStr (tag_name self)),
      (''attributes'', JObj (attributes self)),
      (''level'', (case level self of None \<Rightarrow> JNull | Some n \<Rightarrow> JInt n)),
      (''list_type'', (case list_type self of None \<Rightarrow> JNull | Some t \<Rightarrow> JStr t)),
      (''table_info'', (case table_info self of None \<Rightarrow> JNull | Some d \<Rightarrow> JObj d)),
      (''position'', (case position self of None \<Rightarrow> JNull | Some n \<Rightarrow> JInt n))]"

definition chunks_to_json :: "ContentChunk list \<Rightarrow> chunk list" where
  "chunks_to_json chunks = map to_dict chunks"

section \<open>html_parser.py: the classifier\<close>

text \<open>
  The document tree that BeautifulSoup builds: a text node (\<open>NavigableString\<close>) or an
  element (\<open>Tag\<close>) with its name, its attributes and its contents. An element on its own
  is the triple of the three.
\<close>

datatype node =
    NavigableString string
  | Tag string pydict "node list"

type_synonym element = "string \<times> pydict \<times> node list"

text \<open>The tag sets of \<open>HTMLContentParser.__init__\<close>.\<close>

definition heading_tags :: "string list" where
  "heading_tags = [''h1'', ''h2'', ''h3'', ''h4'', ''h5'', ''h6'']"

definition paragraph_tags :: "string list" where
  "paragraph_tags = [''p'']"

definition list_tags :: "string list" where
  "list_tags = [''ul'', ''ol'', ''li'']"

definition table_tags :: "string list" where
  "table_tags = [''table'', ''thead'', ''tbody'', ''tr'', ''th'', ''td'']"

definition divider_tags :: "string list" where
  "divider_tags = [''hr'']"

definition image_tags :: "string list" where
  "image_tags = [''img'']"

definition code_tags :: "string list" where
  "code_tags = [''pre'', ''code'']"

definition quote_tags :: "string list" where
  "quote_tags = [''blockquote'', ''q'']"

definition form_tags :: "string list" where
  "form_tags = [''form'', ''input'', ''textarea'', ''select'', ''button'']"

definition nav_tags :: "string list" where
  "nav_tags = [''nav'']"

definition footer_tags :: "string list" where
  "footer_tags = [''footer'']"

definition header_tags :: "string list" where
  "header_tags = [''header'']"

definition ignore_tags :: "string list" where
  "ignore_tags =
     [''script'', ''style'', ''meta'', ''link'', ''title'', ''head'', ''html'', ''body'',
      ''div'', ''span'', ''section'', ''article'', ''aside'', ''main'']"

definition structural_tags :: "string list" where
  "structural_tags = [''div'', ''section'', ''article'', ''aside'', ''main'']"

text \<open>\<open>str.lower\<close> on one character, for the code points below 256.\<close>

definition lower_char :: "char \<Rightarrow> char" where
  "lower_char c =
     (let n = (of_char c :: nat)
      in if (65 \<le> n \<and> n \<le> 90) \<or> (192 \<le> n \<and> n \<le> 222 \<and> n \<noteq> 215)
         then char_of (n + 32) else c)"

definition lower :: "string \<Rightarrow> string" where
  "lower s = map lower_char s"

text \<open>
  \<open>_extract_text_content\<close>: the loop over \<open>element.contents\<close> is \<open>text_parts\<close>. A text
  node gives its trimmed text, a child element with a name in \<open>ignore_tags\<close> gives its own
  extracted text, any other child element gives nothing; empty texts are left out.
\<close>

fun extract_text_content :: "node \<Rightarrow> string"
  and text_parts :: "node list \<Rightarrow> string list"
where
  "extract_text_content (NavigableString s) = strip s"
| "extract_text_content (Tag name attrs contents) = str_join '' '' (text_parts contents)"
| "text_parts [] = []"
| "text_parts (NavigableString s # rest) =
     (let text = strip s in if text \<noteq> [] then text # text_parts rest else text_parts rest)"
| "text_parts (Tag name attrs contents # rest) =
     (if name \<in> set ignore_tags then
        (let text = extract_text_content (Tag name attrs contents)
         in if text \<noteq> [] then text # text_parts rest else text_parts rest)
      else text_parts rest)"

text \<open>
  BeautifulSoup's searches. \<open>find_all(True)\<close> is every element below, in document order;
  \<open>find_all(names)\<close> keeps the elements with one of the names; \<open>recursive=False\<close> looks at
  the children only; \<open>find(name)\<close> is not \<open>None\<close> when \<open>find_all(name)\<close> is not empty.
\<close>

fun find_all_True :: "node list \<Rightarrow> element list" where
  "find_all_True [] = []"
| "find_all_True (NavigableString s # rest) = find_all_True rest"
| "find_all_True (Tag name attrs contents # rest) =
     (name, attrs, contents) # find_all_True contents @ find_all_True rest"

definition find_all :: "string list \<Rightarrow> node list \<Rightarrow> element list" where
  "find_all names contents = filter (\<lambda>(name, attrs, cs). name \<in> set names) (find_all_True contents)"

fun children_named :: "string \<Rightarrow> node list \<Rightarrow> element list" where
  "children_named n [] = []"
| "children_named n (NavigableString s # rest) = children_named n rest"
| "children_named n (Tag name attrs contents # rest) =
     (if name = n then (name, attrs, contents) # children_named n rest else children_named n rest)"

definition as_node :: "element \<Rightarrow> node" where
  "as_node e = (case e of (name, attrs, contents) \<Rightarrow> Tag name attrs contents)"

text \<open>
  \<open>_extract_list_content\<close>. The bullet that starts each line is the parameter \<open>bullet\<close>:
  the source's literal has a character beyond code point 255.
\<close>

definition extract_list_content :: "string \<Rightarrow> element \<Rightarrow> string" where
  "extract_list_content bullet e =
     (case e of (name, attrs, contents) \<Rightarrow>
        if name = ''li'' then extract_text_content (as_node e)
        else
          (let items =
                 map (\<lambda>item_text. bullet @ '' '' @ item_text)
                   (filter (\<lambda>item_text. item_text \<noteq> [])
                      (map (\<lambda>li. extract_text_content (as_node li)) (children_named ''li'' contents)))
           in str_join [CHR 0x0A] items))"

definition extract_table_content :: "element \<Rightarrow> string" where
  "extract_table_content e =
     (case e of (name, attrs, contents) \<Rightarrow>
        if name \<in> set [''th'', ''td''] then extract_text_content (as_node e)
        else
          (let cells =
                 filter (\<lambda>cell_text. cell_text \<noteq> [])
                   (map (\<lambda>cell. extract_text_content (as_node cell))
                      (find_all [''th'', ''td''] contents))
           in str_join '' | '' cells))"

text \<open>
  \<open>_extract_table_info\<close>. The maximum over the rows is taken from 0 on, which is the
  maximum of the row lengths as soon as there is a row.
\<close>

definition extract_table_info :: "element \<Rightarrow> pydict" where
  "extract_table_info e =
     (case e of (name, attrs, contents) \<Rightarrow>
        if name = ''table'' then
          (let rows = find_all [''tr''] contents;
               cols = fold max
                        (map (\<lambda>(n, a, cs). int (length (find_all [''th'', ''td''] cs))) rows) 0
           in [(''rows'', JInt (int (length rows))),
               (''columns'', JInt cols),
               (''has_header'',
                  JBool (find_all [''thead''] contents \<noteq> [] \<or> find_all [''th''] contents \<noteq> []))])
        else [])"

text \<open>A value inside an f-string: a string as it is, anything else through \<open>str\<close>.\<close>

definition fmt :: "(json \<Rightarrow> string) \<Rightarrow> json \<Rightarrow> string" where
  "fmt py_str v = (case v of JStr s \<Rightarrow> s | _ \<Rightarrow> py_str v)"

definition extract_form_content :: "(json \<Rightarrow> string) \<Rightarrow> element \<Rightarrow> string" where
  "extract_form_content py_str e =
     (case e of (name, attrs, contents) \<Rightarrow>
        if name = ''form'' then
          (let inputs =
                 map (\<lambda>(n, a, cs).
                        ''['' @ fmt py_str (dict_get a ''type'' (JStr ''text'')) @ '': ''
                        @ fmt py_str (dict_get a ''name'' (JStr [])) @ ''] ''
                        @ fmt py_str (dict_get a ''placeholder'' (JStr [])))
                   (find_all [''input'', ''textarea'', ''select''] contents)
           in str_join '' | '' inputs)
        else extract_text_content (as_node e))"

text \<open>
  \<open>int(element.name[1])\<close> on a name whose second character is a digit, as it is
  wherever \<open>_process_heading\<close> is called (\<open>heading_level_range\<close> below).
\<close>

definition heading_level :: "string \<Rightarrow> int" where
  "heading_level name = int (of_char (name ! 1)) - 48"

text \<open>The \<open>_process_*\<close> methods.\<close>

definition process_heading :: "element \<Rightarrow> pydict \<Rightarrow> int \<Rightarrow> ContentChunk" where
  "process_heading e attrs pos =
     \<lparr>content_type = HEADING, content = extract_text_content (as_node e), tag_name = fst e,
      attributes = attrs, level = Some (heading_level (fst e)), list_type = None,
      table_info = None, position = Some pos\<rparr>"

definition process_paragraph :: "element \<Rightarrow> pydict \<Rightarrow> int \<Rightarrow> ContentChunk" where
  "process_paragraph e attrs pos =
     \<lparr>content_type = PARAGRAPH, content = extract_text_content (as_node e), tag_name = fst e,
      attributes = attrs, level = None, list_type = None, table_info = None,
      position = Some pos\<rparr>"

definition process_list :: "string \<Rightarrow> element \<Rightarrow> pydict \<Rightarrow> int \<Rightarrow> ContentChunk" where
  "process_list bullet e attrs pos =
     \<lparr>content_type = LIST, content = extract_list_content bullet e, tag_name = fst e,
      attributes = attrs, level = None,
      list_type = (if fst e \<in> set [''ul'', ''ol''] then Some (fst e) else None),
      table_info = None, position = Some pos\<rparr>"

definition process_table :: "element \<Rightarrow> pydict \<Rightarrow> int \<Rightarrow> ContentChunk" where
  "process_table e attrs pos =
     \<lparr>content_type = TABLE, content = extract_table_content e, tag_name = fst e,
      attributes = attrs, level = None, list_type = None,
      table_info = Some (extract_table_info e), position = Some pos\<rparr>"

definition process_divider :: "element \<Rightarrow> pydict \<Rightarrow> int \<Rightarrow> ContentChunk" where
  "process_divider e attrs pos =
     \<lparr>content_type = DIVIDER, content = ''---'', tag_name = fst e,
      attributes = attrs, level = None, list_type = None, table_info = None,
      position = Some pos\<rparr>"

definition process_image :: "(json \<Rightarrow> string) \<Rightarrow> element \<Rightarrow> pydict \<Rightarrow> int \<Rightarrow> ContentChunk" where
  "process_image py_str e attrs pos =
     (let src = dict_get attrs ''src'' (JStr []);
          alt = dict_get attrs ''alt'' (JStr []);
          text = (if truthy alt
                  then ''[Image: '' @ fmt py_str alt @ ''] ('' @ fmt py_str src @ '')''
                  else ''[Image] ('' @ fmt py_str src @ '')'')
      in \<lparr>content_type = IMAGE, content = text, tag_name = fst e,
          attributes = attrs, level = None, list_type = None, table_info = None,
          position = Some pos\<rparr>)"

definition process_code :: "element \<Rightarrow> pydict \<Rightarrow> int \<Rightarrow> ContentChunk" where
  "process_code e attrs pos =
     \<lparr>content_type = CODE_BLOCK, content = extract_text_content (as_node e), tag_name = fst e,
      attributes = attrs, level = None, list_type = None, table_info = None,
      position = Some pos\<rparr>"

definition process_quote :: "element \<Rightarrow> pydict \<Rightarrow> int \<Rightarrow> ContentChunk" where
  "process_quote e attrs pos =
     \<lparr>content_type = QUOTE, content = extract_text_content (as_node e), tag_name = fst e,
      attributes = attrs, level = None, list_type = None, table_info = None,
      position = Some pos\<rparr>"

definition process_form :: "(json \<Rightarrow> string) \<Rightarrow> element \<Rightarrow> pydict \<Rightarrow> int \<Rightarrow> ContentChunk" where
  "process_form py_str e attrs pos =
     \<lparr>content_type = FORM, content = extract_form_content py_str e, tag_name = fst e,
      attributes = attrs, level = None, list_type = None, table_info = None,
      position = Some pos\<rparr>"

definition process_navigation :: "element \<Rightarrow> pydict \<Rightarrow> int \<Rightarrow> ContentChunk" where
  "process_navigation e attrs pos =
     \<lparr>content_type = NAVIGATION, content = extract_text_content (as_node e), tag_name = fst e,
      attributes = attrs, level = None, list_type = None, table_info = None,
      position = Some pos\<rparr>"

definition process_footer :: "element \<Rightarrow> pydict \<Rightarrow> int \<Rightarrow> ContentChunk" where
  "process_footer e attrs pos =
     \<lparr>content_type = FOOTER, content = extract_text_content (as_node e), tag_name = fst e,
      attributes = attrs, level = None, list_type = None, table_info = None,
      position = Some pos\<rparr>"

definition process_header :: "element \<Rightarrow> pydict \<Rightarrow> int \<Rightarrow> ContentChunk" where
  "process_header e attrs pos =
     \<lparr>content_type = HEADER, content = extract_text_content (as_node e), tag_name = fst e,
      attributes = attrs, level = None, list_type = None, table_info = None,
      position = Some pos\<rparr>"

definition process_structural :: "element \<Rightarrow> pydict \<Rightarrow> int \<Rightarrow> ContentChunk option" where
  "process_structural e attrs pos =
     (let text = extract_text_content (as_node e)
      in if strip text \<noteq> [] then
           Some \<lparr>content_type = UNKNOWN, content = text, tag_name = fst e,
                 attributes = attrs, level = None, list_type = None, table_info = None,
                 position = Some pos\<rparr>
         else None)"

definition process_unknown :: "element \<Rightarrow> pydict \<Rightarrow> int \<Rightarrow> ContentChunk" where
  "process_unknown e attrs pos =
     \<lparr>content_type = UNKNOWN, content = extract_text_content (as_node e), tag_name = fst e,
      attributes = attrs, level = None, list_type = None, table_info = None,
      position = Some pos\<rparr>"

text \<open>\<open>_process_element\<close>: the chain of membership tests, in the source's order.\<close>

definition process_element ::
  "(json \<Rightarrow> string) \<Rightarrow> string \<Rightarrow> element \<Rightarrow> int \<Rightarrow> ContentChunk option"
where
  "process_element py_str bullet e pos =
     (let name = lower (fst e);
          attrs = fst (snd e)
      in if name \<in> set ignore_tags then None
         else if name \<in> set heading_tags then Some (process_heading e attrs pos)
         else if name \<in> set paragraph_tags then Some (process_paragraph e attrs pos)
         else if name \<in> set list_tags then Some (process_list bullet e attrs pos)
         else if name \<in> set table_tags then Some (process_table e attrs pos)
         else if name \<in> set divider_tags then Some (process_divider e attrs pos)
         else if name \<in> set image_tags then Some (process_image py_str e attrs pos)
         else if name \<in> set code_tags then Some (process_code e attrs pos)
         else if name \<in> set quote_tags then Some (process_quote e attrs pos)
         else if name \<in> set form_tags then Some (process_form py_str e attrs pos)
         else if name \<in> set nav_tags then Some (process_navigation e attrs pos)
         else if name \<in> set footer_tags then Some (process_footer e attrs pos)
         else if name \<in> set header_tags then Some (process_header e attrs pos)
         else if name \<in> set structural_tags then process_structural e attrs pos
         else Some (process_unknown e attrs pos))"

text \<open>\<open>_clean_html_string\<close>\<close>

definition clean_html_string :: "string \<Rightarrow> string" where
  "clean_html_string html_string =
     (let h = strip html_string;
          h = (if startswith h ''```html'' then drop 7 h else h);
          h = (if endswith h ''```'' then take (length h - 3) h else h)
      in strip h)"

text \<open>
  The loop of \<open>parse_html\<close> over \<open>soup.find_all(True)\<close>, with the position counter and the
  chunks built so far. A \<open>ContentChunk\<close> is always true in \<open>if chunk\<close>, so a chunk is
  appended exactly when \<open>_process_element\<close> returns one.
\<close>

fun parse_loop ::
  "(json \<Rightarrow> string) \<Rightarrow> string \<Rightarrow> element list \<Rightarrow> int \<Rightarrow> ContentChunk list \<Rightarrow> ContentChunk list"
where
  "parse_loop py_str bullet [] pos chunks = chunks"
| "parse_loop py_str bullet (e # rest) pos chunks =
     (case process_element py_str bullet e pos of
        Some c \<Rightarrow> parse_loop py_str bullet rest (pos + 1) (chunks @ [c])
      | None \<Rightarrow> parse_loop py_str bullet rest pos chunks)"

text \<open>
  \<open>parse_html\<close>. BeautifulSoup's \<open>html.parser\<close>, which turns the cleaned string into the
  contents of the document, is the parameter \<open>soup\<close>.
\<close>

definition parse_html ::
  "(string \<Rightarrow> node list) \<Rightarrow> (json \<Rightarrow> string) \<Rightarrow> string \<Rightarrow> string \<Rightarrow> ContentChunk list"
where
  "parse_html soup py_str bullet html_string =
     parse_loop py_str bullet (find_all_True (soup (clean_html_string html_string))) 0 []"

section \<open>chunker.py: merging consecutive table chunks\<close>

text \<open>\<open>chunk.get('content', '').strip()\<close>: only a \<open>str\<close> has \<open>strip\<close>.\<close>

definition content_strip :: "chunk \<Rightarrow> py_error + string" where
  "content_strip c =
     (case dict_get c ''content'' (JStr []) of
        JStr s \<Rightarrow> Inr (strip s)
      | _ \<Rightarrow> Inl AttributeError)"

text \<open>\<open>chunk.get('content_type', '') == 'table'\<close>\<close>

definition is_table :: "chunk \<Rightarrow> bool" where
  "is_table c = (dict_get c ''content_type'' (JStr []) = JStr ''table'')"

text \<open>
  The inner \<open>while j < len(chunks) and chunks[j] is a table\<close> loop, on the chunks from
  index \<open>j\<close> on: it appends to \<open>table_chunks\<close> and \<open>table_contents\<close> and returns them
  with the chunks from the final \<open>j\<close> on.
\<close>

fun look_ahead ::
  "chunk list \<Rightarrow> chunk list \<Rightarrow> string list \<Rightarrow> py_error + (chunk list \<times> string list \<times> chunk list)"
where
  "look_ahead [] table_chunks table_contents = Inr (table_chunks, table_contents, [])"
| "look_ahead (c # rest) table_chunks table_contents =
     (if is_table c then
        (case content_strip c of
           Inl e \<Rightarrow> Inl e
         | Inr s \<Rightarrow> look_ahead rest (table_chunks @ [c]) (table_contents @ [s]))
      else Inr (table_chunks, table_contents, c # rest))"

text \<open>The dict literal \<open>merged_chunk\<close>.\<close>

definition merged_chunk :: "chunk \<Rightarrow> chunk list \<Rightarrow> string list \<Rightarrow> chunk" where
  "merged_chunk current_chunk table_chunks table_contents =
     [(''content_type'', JStr ''table''),
      (''content'', JStr (str_join '' | '' (filter (\<lambda>content. content \<noteq> []) table_contents))),
      (''tag_name'', dict_get current_chunk ''tag_name'' (JStr [])),
      (''attributes'', dict_get current_chunk ''attributes'' (JObj [])),
      (''position'', dict_get current_chunk ''position'' (JInt 0)),
      (''table_info'', JObj
         [(''merged_chunks'', JInt (int (length table_chunks))),
          (''original_positions'',
             JArr (map (\<lambda>chunk. dict_get chunk ''position'' (JInt 0)) table_chunks))])]"

text \<open>
  The outer \<open>while i < len(chunks)\<close> loop, on the chunks from index \<open>i\<close> on, with the
  list \<open>merged_chunks\<close> built so far.
\<close>

function merge_loop :: "chunk list \<Rightarrow> chunk list \<Rightarrow> py_error + chunk list" where
  "merge_loop [] merged = Inr merged"
| "merge_loop (c # rest) merged =
     (if is_table c then
        (case content_strip c of
           Inl e \<Rightarrow> Inl e
         | Inr s \<Rightarrow>
             (case look_ahead rest [c] [s] of
                Inl e \<Rightarrow> Inl e
              | Inr (table_chunks, table_contents, rest') \<Rightarrow>
                  if length table_chunks > 1
                  then merge_loop rest' (merged @ [merged_chunk c table_chunks table_contents])
                  else merge_loop rest' (merged @ [c])))
      else merge_loop rest (merged @ [c]))"
  by pat_completeness auto
termination
proof (relation "measure (\<lambda>(chunks, merged). length chunks)")
  show "wf (measure (\<lambda>(chunks, merged). length chunks))"
    by simp
next
  fix c :: chunk and rest merged :: "chunk list" and s x2 table_chunks y table_contents rest'
  assume "look_ahead rest [c] [s] = Inr x2" "(table_chunks, y) = x2" "(table_contents, rest') = y"
  then have la: "look_ahead rest [c] [s] = Inr (table_chunks, table_contents, rest')"
    by simp
  have "length r \<le> length xs" if "look_ahead xs a b = Inr (p, q, r)" for xs a b p q r
    using that
    by (induction xs arbitrary: a b) (fastforce split: if_splits sum.splits)+
  from this [OF la]
  show "((rest', merged @ [merged_chunk c table_chunks table_contents]), c # rest, merged)
          \<in> measure (\<lambda>(chunks, merged). length chunks)"
    by simp
next
  fix c :: chunk and rest merged :: "chunk list" and s x2 table_chunks y table_contents rest'
  assume "look_ahead rest [c] [s] = Inr x2" "(table_chunks, y) = x2" "(table_contents, rest') = y"
  then have la: "look_ahead rest [c] [s] = Inr (table_chunks, table_contents, rest')"
    by simp
  have "length r \<le> length xs" if "look_ahead xs a b = Inr (p, q, r)" for xs a b p q r
    using that
    by (induction xs arbitrary: a b) (fastforce split: if_splits sum.splits)+
  from this [OF la]
  show "((rest', merged @ [c]), c # rest, merged) \<in> measure (\<lambda>(chunks, merged). length chunks)"
    by simp
next
  fix c :: chunk and rest merged :: "chunk list"
  show "((rest, merged @ [c]), c # rest, merged) \<in> measure (\<lambda>(chunks, merged). length chunks)"
    by simp
qed

definition merge_consecutive_table_chunks :: "chunk list \<Rightarrow> py_error + chunk list" where
  "merge_consecutive_table_chunks chunks =
     (if chunks = [] then Inr chunks else merge_loop chunks [])"

subsection \<open>The merge as the specification words it\<close>

text \<open>
  A merge run is a maximal sequence of consecutive table chunks; every other chunk is a
  segment of its own. \<open>table_runs\<close> cuts a chunk sequence into these segments.
\<close>

function table_runs :: "chunk list \<Rightarrow> chunk list list" where
  "table_runs [] = []"
| "table_runs (c # cs) =
     (if is_table c
      then (c # takeWhile is_table cs) # table_runs (dropWhile is_table cs)
      else [c] # table_runs cs)"
  by pat_completeness auto
termination
  by (relation "measure length") (auto simp: less_Suc_eq_le length_dropWhile_le)

text \<open>The chunk's content is a string (an absent key reads as the empty string).\<close>

definition has_str_content :: "chunk \<Rightarrow> bool" where
  "has_str_content c = (case dict_get c ''content'' (JStr []) of JStr s \<Rightarrow> True | _ \<Rightarrow> False)"

definition content_text :: "chunk \<Rightarrow> string" where
  "content_text c = (case dict_get c ''content'' (JStr []) of JStr s \<Rightarrow> s | _ \<Rightarrow> [])"

text \<open>Every table chunk of the sequence has a string as content.\<close>

definition table_contents_ok :: "chunk list \<Rightarrow> bool" where
  "table_contents_ok chunks = list_all (\<lambda>c. is_table c \<longrightarrow> has_str_content c) chunks"

text \<open>The trimmed contents of a run that are not empty, in the run's order.\<close>

definition run_contents :: "chunk list \<Rightarrow> string list" where
  "run_contents run = filter (\<lambda>s. s \<noteq> []) (map (\<lambda>c. strip (content_text c)) run)"

text \<open>\<open>chunk['table_info']['merged_chunks']\<close>, when both keys are there.\<close>

definition merged_chunks_of :: "chunk \<Rightarrow> json option" where
  "merged_chunks_of c =
     (case map_of c ''table_info'' of
        Some (JObj info) \<Rightarrow> map_of info ''merged_chunks''
      | _ \<Rightarrow> None)"

text \<open>
  What a segment becomes: a run of two or more table chunks becomes one table chunk, any
  other segment (one chunk) stays the chunk it is.
\<close>

definition collapse_run :: "chunk list \<Rightarrow> chunk" where
  "collapse_run run =
     (if 2 \<le> length run
      then [(''content_type'', JStr ''table''),
            (''content'', JStr (str_join '' | '' (run_contents run))),
            (''tag_name'', dict_get (hd run) ''tag_name'' (JStr [])),
            (''attributes'', dict_get (hd run) ''attributes'' (JObj [])),
            (''position'', dict_get (hd run) ''position'' (JInt 0)),
            (''table_info'', JObj
               [(''merged_chunks'', JInt (int (length run))),
                (''original_positions'',
                   JArr (map (\<lambda>c. dict_get c ''position'' (JInt 0)) run))])]
      else hd run)"

text \<open>No two neighbours of the sequence are both table chunks.\<close>

fun no_adjacent_tables :: "chunk list \<Rightarrow> bool" where
  "no_adjacent_tables (a # b # cs) = (\<not> (is_table a \<and> is_table b) \<and> no_adjacent_tables (b # cs))"
| "no_adjacent_tables cs = True"

section \<open>chunker.py: filtering, token counting, database records\<close>

text \<open>
  \<open>filter_empty_content\<close>: the \<open>for chunk in chunks\<close> loop, with the list
  \<open>filtered_chunks\<close> built so far. The inner test is the source's.
\<close>

fun filter_loop :: "chunk list \<Rightarrow> chunk list \<Rightarrow> py_error + chunk list" where
  "filter_loop [] filtered_chunks = Inr filtered_chunks"
| "filter_loop (c # rest) filtered_chunks =
     (case content_strip c of
        Inl e \<Rightarrow> Inl e
      | Inr s \<Rightarrow>
          if s \<noteq> [] then
            (if dict_get c ''content_type'' JNull = JStr ''divider''
                \<or> dict_get c ''content_type'' JNull = JStr ''image''
                \<or> length s > 0
             then filter_loop rest (filtered_chunks @ [c])
             else filter_loop rest filtered_chunks)
          else filter_loop rest filtered_chunks)"

definition filter_empty_content :: "chunk list \<Rightarrow> py_error + chunk list" where
  "filter_empty_content chunks = filter_loop chunks []"

text \<open>
  \<open>re.sub(r'<[^>]+>', '', text)\<close>: at a \<open><\<close>, the longest run of characters other than
  \<open>>\<close> must be non-empty and be followed by a \<open>>\<close>; then the whole tag is removed and the
  scan goes on behind it. Otherwise the \<open><\<close> stays.
\<close>

function remove_tags :: "string \<Rightarrow> string" where
  "remove_tags [] = []"
| "remove_tags (c # cs) =
     (if c = CHR ''<''
         \<and> takeWhile (\<lambda>x. x \<noteq> CHR ''>'') cs \<noteq> []
         \<and> dropWhile (\<lambda>x. x \<noteq> CHR ''>'') cs \<noteq> []
      then remove_tags (tl (dropWhile (\<lambda>x. x \<noteq> CHR ''>'') cs))
      else c # remove_tags cs)"
  by pat_completeness auto
termination
proof (relation "measure length")
  show "wf (measure (length :: string \<Rightarrow> nat))"
    by simp
next
  fix c :: char and cs :: string
  have "length (tl (dropWhile (\<lambda>x. x \<noteq> CHR ''>'') cs)) \<le> length cs"
    using length_dropWhile_le [of "\<lambda>x. x \<noteq> CHR ''>''" cs] by simp
  then show "(tl (dropWhile (\<lambda>x. x \<noteq> CHR ''>'') cs), c # cs) \<in> measure length"
    by simp
next
  fix c :: char and cs :: string
  show "(cs, c # cs) \<in> measure length"
    by simp
qed

text \<open>
  The regular expression class \<open>\w\<close> on one character, for the code points below 256:
  the alphanumeric characters and the underscore.
\<close>

definition is_word :: "char \<Rightarrow> bool" where
  "is_word c =
     (let n = (of_char c :: nat)
      in (48 \<le> n \<and> n \<le> 57) \<or> (65 \<le> n \<and> n \<le> 90) \<or> n = 95 \<or> (97 \<le> n \<and> n \<le> 122)
         \<or> n = 170 \<or> n = 178 \<or> n = 179 \<or> n = 181 \<or> n = 185 \<or> n = 186
         \<or> (188 \<le> n \<and> n \<le> 190) \<or> (192 \<le> n \<and> n \<le> 214) \<or> (216 \<le> n \<and> n \<le> 246)
         \<or> (248 \<le> n \<and> n \<le> 255))"

text \<open>\<open>re.sub(r'[^\w\s]', ' ', text)\<close>\<close>

definition replace_punctuation :: "string \<Rightarrow> string" where
  "replace_punctuation text = map (\<lambda>c. if is_word c \<or> is_space c then c else CHR '' '') text"

text \<open>
  \<open>text.split()\<close>: the maximal runs of characters that are not whitespace; \<open>cur\<close> is the
  run being read.
\<close>

fun split_scan :: "string \<Rightarrow> string \<Rightarrow> string list" where
  "split_scan [] cur = (if cur = [] then [] else [cur])"
| "split_scan (c # cs) cur =
     (if is_space c then (if cur = [] then split_scan cs [] else cur # split_scan cs [])
      else split_scan cs (cur @ [c]))"

definition py_split :: "string \<Rightarrow> string list" where
  "py_split text = split_scan text []"

definition count_tokens :: "string \<Rightarrow> int" where
  "count_tokens text =
     (if text = [] \<or> strip text = [] then 0
      else
        (let clean_text = remove_tags text;
             clean_text = replace_punctuation clean_text;
             tokens = filter (\<lambda>token. strip token \<noteq> []) (py_split clean_text)
         in int (length tokens)))"

text \<open>
  \<open>type_mapping.get(content_type, 'unknown')\<close>: a list or a dict is not hashable, any
  other value that is not a key of the mapping gives \<open>'unknown'\<close>.
\<close>

definition type_mapping :: "(string \<times> string) list" where
  "type_mapping =
     [(''heading'', ''header''), (''paragraph'', ''paragraph''), (''list'', ''list''),
      (''table'', ''table''), (''image'', ''image''), (''code_block'', ''code''),
      (''quote'', ''quote''), (''form'', ''form''), (''navigation'', ''navigation''),
      (''footer'', ''footer''), (''divider'', ''divider''), (''unknown'', ''unknown'')]"

fun chunk_type_of :: "json \<Rightarrow> py_error + string" where
  "chunk_type_of (JStr t) = Inr (case map_of type_mapping t of None \<Rightarrow> ''unknown'' | Some v \<Rightarrow> v)"
| "chunk_type_of (JArr xs) = Inl TypeError"
| "chunk_type_of (JObj d) = Inl TypeError"
| "chunk_type_of v = Inr ''unknown''"

text \<open>
  The \<open>html_class\<close> of a chunk: \<open>chunk.get('attributes', {}).get('class')\<close> needs a dict;
  a list is joined with spaces (its items must be strings), any other value goes through
  \<open>str\<close>. Python's \<open>str\<close> on a value that is not a string is the parameter \<open>py_str\<close>.
\<close>

fun str_items :: "json list \<Rightarrow> py_error + string list" where
  "str_items [] = Inr []"
| "str_items (JStr s # rest) = (case str_items rest of Inl e \<Rightarrow> Inl e | Inr ss \<Rightarrow> Inr (s # ss))"
| "str_items (v # rest) = Inl TypeError"

definition html_class_of :: "(json \<Rightarrow> string) \<Rightarrow> chunk \<Rightarrow> py_error + string" where
  "html_class_of py_str c =
     (case dict_get c ''attributes'' (JObj []) of
        JObj attrs \<Rightarrow>
          (let class_value = dict_get attrs ''class'' JNull
           in if truthy class_value then
                (case class_value of
                   JArr items \<Rightarrow>
                     (case str_items items of Inl e \<Rightarrow> Inl e | Inr ss \<Rightarrow> Inr (str_join '' '' ss))
                 | JStr s \<Rightarrow> Inr s
                 | v \<Rightarrow> Inr (py_str v))
              else Inr [])
      | _ \<Rightarrow> Inl AttributeError)"

text \<open>
  The \<open>table_info\<close> step on the metadata: \<open>'merged_chunks' in table_info\<close> is a key test
  on a dict, an item test on a list, a substring test on a string, and a \<open>TypeError\<close> on a
  number or \<open>True\<close>; \<open>table_info['merged_chunks']\<close> then needs a dict.
\<close>

definition add_merged_chunks :: "json \<Rightarrow> pydict \<Rightarrow> py_error + pydict" where
  "add_merged_chunks info metadata =
     (case info of
        JObj d \<Rightarrow>
          (case map_of d ''merged_chunks'' of
             Some v \<Rightarrow> Inr (metadata @ [(''merged_chunks'', v)])
           | None \<Rightarrow> Inr metadata)
      | JArr xs \<Rightarrow> if JStr ''merged_chunks'' \<in> set xs then Inl TypeError else Inr metadata
      | JStr s \<Rightarrow> if str_contains s ''merged_chunks'' then Inl TypeError else Inr metadata
      | _ \<Rightarrow> Inl TypeError)"

definition convert_chunk_to_database_format ::
  "(json \<Rightarrow> string) \<Rightarrow> chunk \<Rightarrow> pydict \<Rightarrow> int \<Rightarrow> py_error + pydict"
where
  "convert_chunk_to_database_format py_str c paper_metadata chunk_id =
     (case content_strip c of
        Inl e \<Rightarrow> Inl e
      | Inr text \<Rightarrow>
     (let ctype = dict_get c ''content_type'' (JStr ''unknown'') in
      case chunk_type_of ctype of
        Inl e \<Rightarrow> Inl e
      | Inr chunk_type \<Rightarrow>
     (case html_class_of py_str c of
        Inl e \<Rightarrow> Inl e
      | Inr html_class \<Rightarrow>
     (case map_of paper_metadata ''title'' of
        None \<Rightarrow> Inl KeyError
      | Some title \<Rightarrow>
     (let metadata =
            [(''name'', title),
             (''type'', JStr chunk_type),
             (''html_class'', JStr html_class),
             (''token_count'', JInt (count_tokens text)),
             (''tag_name'', dict_get c ''tag_name'' (JStr [])),
             (''position'', dict_get c ''position'' (JInt 0))];
          metadata =
            (if ctype = JStr ''heading'' \<and> truthy (dict_get c ''level'' JNull)
             then metadata @ [(''level'', dict_get c ''level'' JNull)] else metadata);
          metadata =
            (if ctype = JStr ''list'' \<and> truthy (dict_get c ''list_type'' JNull)
             then metadata @ [(''list_type'', dict_get c ''list_type'' JNull)] else metadata)
      in case (if ctype = JStr ''table'' \<and> truthy (dict_get c ''table_info'' JNull)
               then add_merged_chunks (dict_get c ''table_info'' JNull) metadata
               else Inr metadata) of
           Inl e \<Rightarrow> Inl e
         | Inr metadata \<Rightarrow>
             Inr [(''id'', JInt chunk_id), (''content'', JStr text), (''metadata'', JObj metadata)])))))"

text \<open>
  The conversion loop of \<open>convert_json_to_database_format\<close>: a chunk whose conversion
  raises is skipped and \<open>chunk_id\<close> stays.
\<close>

fun convert_loop ::
  "(json \<Rightarrow> string) \<Rightarrow> chunk list \<Rightarrow> pydict \<Rightarrow> int \<Rightarrow> pydict list \<Rightarrow> pydict list"
where
  "convert_loop py_str [] paper_metadata chunk_id database_chunks = database_chunks"
| "convert_loop py_str (c # rest) paper_metadata chunk_id database_chunks =
     (case convert_chunk_to_database_format py_str c paper_metadata chunk_id of
        Inr db_chunk \<Rightarrow>
          convert_loop py_str rest paper_metadata (chunk_id + 1) (database_chunks @ [db_chunk])
      | Inl e \<Rightarrow> convert_loop py_str rest paper_metadata chunk_id database_chunks)"

text \<open>
  \<open>convert_json_to_database_format\<close> from the loaded chunks on: filtering (unless
  \<open>include_empty\<close>), merging (if \<open>merge_tables\<close>), the conversion loop from id 1. The
  paper metadata, extracted before, is a parameter. An exception of the filter or of the
  merge is not caught.
\<close>

definition convert_chunks ::
  "(json \<Rightarrow> string) \<Rightarrow> bool \<Rightarrow> bool \<Rightarrow> pydict \<Rightarrow> chunk list \<Rightarrow> py_error + pydict list"
where
  "convert_chunks py_str include_empty merge_tables paper_metadata chunks =
     (case (if \<not> include_empty then filter_empty_content chunks else Inr chunks) of
        Inl e \<Rightarrow> Inl e
      | Inr filtered \<Rightarrow>
          (case (if merge_tables then merge_consecutive_table_chunks filtered else Inr filtered) of
             Inl e \<Rightarrow> Inl e
           | Inr merged \<Rightarrow> Inr (convert_loop py_str merged paper_metadata 1 [])))"

section \<open>Notions of the specification\<close>

text \<open>
  The text nodes that belong to an element: its text-node children and, through child
  elements whose name is in \<open>ignore_tags\<close>, the text nodes that belong to those, in
  document order. A child element with any other name gives none.
\<close>

fun own_texts :: "node list \<Rightarrow> string list" where
  "own_texts [] = []"
| "own_texts (NavigableString s # rest) = s # own_texts rest"
| "own_texts (Tag name attrs contents # rest) =
     (if name \<in> set ignore_tags then own_texts contents else []) @ own_texts rest"

text \<open>Their trimmed texts that are not empty: the pieces of the element's content.\<close>

definition text_pieces :: "node list \<Rightarrow> string list" where
  "text_pieces contents = filter (\<lambda>t. t \<noteq> []) (map strip (own_texts contents))"

text \<open>
  An HTML tag, as the token counter sees it: a \<open><\<close>, then one or more characters other
  than \<open>>\<close>, then a \<open>>\<close>.
\<close>

definition is_tag :: "string \<Rightarrow> bool" where
  "is_tag w =
     (case w of
        [] \<Rightarrow> False
      | c # rest \<Rightarrow>
          c = CHR ''<'' \<and> rest \<noteq> [] \<and> last rest = CHR ''>''
          \<and> butlast rest \<noteq> [] \<and> CHR ''>'' \<notin> set (butlast rest))"

text \<open>
  The number of maximal runs of characters with the property \<open>P\<close> in a string: a run ends
  at a character with \<open>P\<close> that is the last one or is followed by one without \<open>P\<close>.
\<close>

fun count_runs :: "(char \<Rightarrow> bool) \<Rightarrow> string \<Rightarrow> nat" where
  "count_runs P [] = 0"
| "count_runs P [c] = (if P c then 1 else 0)"
| "count_runs P (c # d # s) = (if P c \<and> \<not> P d then 1 else 0) + count_runs P (d # s)"

text \<open>The tags that have a category of their own.\<close>

definition category_tags :: "string list" where
  "category_tags =
     heading_tags @ paragraph_tags @ list_tags @ table_tags @ divider_tags @ image_tags
     @ code_tags @ quote_tags @ form_tags @ nav_tags @ footer_tags @ header_tags"

text \<open>The element yields a chunk (at any position).\<close>

definition emits :: "(json \<Rightarrow> string) \<Rightarrow> string \<Rightarrow> element \<Rightarrow> bool" where
  "emits py_str bullet e = (process_element py_str bullet e 0 \<noteq> None)"

text \<open>The chunk converts to a database record (with any id).\<close>

definition converts :: "(json \<Rightarrow> string) \<Rightarrow> pydict \<Rightarrow> chunk \<Rightarrow> bool" where
  "converts py_str paper_metadata c =
     (case convert_chunk_to_database_format py_str c paper_metadata 0 of
        Inr r \<Rightarrow> True
      | Inl e \<Rightarrow> False)"

text \<open>The ids of a list of records.\<close>

definition record_ids :: "pydict list \<Rightarrow> json option list" where
  "record_ids records = map (\<lambda>r. map_of r ''id'') records"

section \<open>Verified properties\<close>

subsection \<open>The table merge\<close>

lemma content_strip_eq:
  "content_strip c = (if has_str_content c then Inr (strip (content_text c)) else Inl AttributeError)"
  by (simp add: content_strip_def has_str_content_def content_text_def split: json.splits)

lemma look_ahead_eq:
  "look_ahead xs a b =
     (if list_all has_str_content (takeWhile is_table xs)
      then Inr (a @ takeWhile is_table xs,
                b @ map (\<lambda>c. strip (content_text c)) (takeWhile is_table xs),
                dropWhile is_table xs)
      else Inl AttributeError)"
  by (induction xs arbitrary: a b) (simp_all add: content_strip_eq)

lemma table_contents_ok_split:
  "table_contents_ok cs =
     (list_all has_str_content (takeWhile is_table cs) \<and> table_contents_ok (dropWhile is_table cs))"
  by (induction cs) (simp_all add: table_contents_ok_def)

lemma run_contents_Cons:
  "filter (\<lambda>s. s \<noteq> []) (strip (content_text c) # map (\<lambda>c. strip (content_text c)) r)
     = run_contents (c # r)"
  by (simp add: run_contents_def)

lemma merged_chunk_collapse:
  "r \<noteq> [] \<Longrightarrow>
   merged_chunk c (c # r) (strip (content_text c) # map (\<lambda>c. strip (content_text c)) r)
     = collapse_run (c # r)"
  by (cases r) (simp_all add: merged_chunk_def collapse_run_def run_contents_def)

lemma merge_loop_eq:
  "merge_loop xs acc =
     (if table_contents_ok xs then Inr (acc @ map collapse_run (table_runs xs))
      else Inl AttributeError)"
proof (induction xs arbitrary: acc rule: table_runs.induct)
  case 1
  show ?case by (simp add: table_contents_ok_def)
next
  case (2 c cs)
  show ?case
  proof (cases "is_table c")
    case False
    with 2 show ?thesis
      by (simp add: table_contents_ok_def collapse_run_def)
  next
    case True
    note tc = True
    have ok: "table_contents_ok (c # cs) =
      (has_str_content c \<and> list_all has_str_content (takeWhile is_table cs)
        \<and> table_contents_ok (dropWhile is_table cs))"
      using tc table_contents_ok_split [of "c # cs"] by simp
    show ?thesis
    proof (cases "has_str_content c \<and> list_all has_str_content (takeWhile is_table cs)")
      case False
      then show ?thesis using tc ok
        by (auto simp: content_strip_eq look_ahead_eq)
    next
      case True
      show ?thesis
      proof (cases "takeWhile is_table cs = []")
        case True
        with \<open>has_str_content c \<and> _\<close> tc ok "2.IH"(1) [OF tc] show ?thesis
          by (simp add: content_strip_eq look_ahead_eq collapse_run_def)
      next
        case False
        with \<open>has_str_content c \<and> _\<close> tc ok "2.IH"(1) [OF tc] show ?thesis
          by (simp add: content_strip_eq look_ahead_eq merged_chunk_collapse)
      qed
    qed
  qed
qed

lemma concat_table_runs: "concat (table_runs xs) = xs"
  by (induction xs rule: table_runs.induct) simp_all

lemma no_adjacent_Cons_other:
  "\<not> is_table c \<Longrightarrow> no_adjacent_tables ys \<Longrightarrow> no_adjacent_tables (c # ys)"
  by (cases ys) simp_all

lemma table_runs_heads: "no_adjacent_tables (map hd (table_runs xs))"
proof (induction xs rule: table_runs.induct)
  case 1
  show ?case by simp
next
  case (2 c cs)
  show ?case
  proof (cases "is_table c")
    case True
    show ?thesis
    proof (cases "dropWhile is_table cs")
      case Nil
      with True show ?thesis by (simp del: dropWhile_eq_Nil_conv)
    next
      case (Cons d ds)
      then have "\<not> is_table d"
        by (metis hd_dropWhile list.sel(1) list.distinct(1))
      with True Cons 2 show ?thesis by simp
    qed
  next
    case False
    with 2 show ?thesis by (simp add: no_adjacent_Cons_other)
  qed
qed

lemma table_runs_shape:
  "run \<in> set (table_runs xs) \<Longrightarrow>
     run \<noteq> [] \<and> (list_all is_table run \<or> (\<exists>c. run = [c] \<and> \<not> is_table c))"
proof (induction xs rule: table_runs.induct)
  case 1
  then show ?case by simp
next
  case (2 c cs)
  then show ?case
    by (cases "is_table c") (auto simp: list_all_iff dest: set_takeWhileD)
qed

lemma collapse_run_facts:
  "(2 \<le> length run \<longrightarrow>
      merged_chunks_of (collapse_run run) = Some (JInt (int (length run)))
      \<and> map_of (collapse_run run) ''content'' = Some (JStr (str_join '' | '' (run_contents run))))
   \<and> (length run < 2 \<longrightarrow> collapse_run run = hd run)"
  by (simp add: collapse_run_def merged_chunks_of_def)

text \<open>
  C1 (amended). Whenever every table chunk has a string as content, the merge returns, and
  its result is the input cut into its segments (\<open>table_runs\<close>: the maximal runs of
  consecutive table chunks, every other chunk alone; no two neighbouring segments both
  start with a table chunk), each segment collapsed to one chunk. A run of \<open>k \<ge> 2\<close>
  table chunks becomes one chunk whose \<open>table_info.merged_chunks\<close> is \<open>k\<close> and whose
  content is the \<open>' | '\<close>-join, in the run's order, of the run's trimmed contents that
  are not empty. A segment of one chunk (an isolated table chunk, or a chunk that is not a
  table) is passed on as it is.
\<close>

theorem merge_collapses_table_runs:
  assumes "table_contents_ok chunks"
  shows "merge_consecutive_table_chunks chunks = Inr (map collapse_run (table_runs chunks))
    \<and> concat (table_runs chunks) = chunks
    \<and> no_adjacent_tables (map hd (table_runs chunks))
    \<and> (\<forall>run \<in> set (table_runs chunks).
          (2 \<le> length run \<longrightarrow>
             list_all is_table run
             \<and> merged_chunks_of (collapse_run run) = Some (JInt (int (length run)))
             \<and> map_of (collapse_run run) ''content''
                 = Some (JStr (str_join '' | '' (run_contents run))))
          \<and> (length run < 2 \<longrightarrow> (\<exists>c. run = [c] \<and> collapse_run run = c)))"
proof -
  have m: "merge_consecutive_table_chunks chunks = Inr (map collapse_run (table_runs chunks))"
    using assms by (cases chunks) (simp_all add: merge_consecutive_table_chunks_def merge_loop_eq)
  have r: "(2 \<le> length run \<longrightarrow>
             list_all is_table run
             \<and> merged_chunks_of (collapse_run run) = Some (JInt (int (length run)))
             \<and> map_of (collapse_run run) ''content''
                 = Some (JStr (str_join '' | '' (run_contents run))))
          \<and> (length run < 2 \<longrightarrow> (\<exists>c. run = [c] \<and> collapse_run run = c))"
    if "run \<in> set (table_runs chunks)" for run
  proof -
    from table_runs_shape [OF that]
    have ne: "run \<noteq> []" and sh: "list_all is_table run \<or> (\<exists>c. run = [c] \<and> \<not> is_table c)"
      by simp_all
    have one: "\<exists>c. run = [c] \<and> collapse_run run = c" if "length run < 2"
      using that ne by (cases run) (simp_all add: collapse_run_def)
    have two: "list_all is_table run" if "2 \<le> length run"
      using that sh by auto
    show ?thesis using one two collapse_run_facts [of run] by blast
  qed
  show ?thesis using m r concat_table_runs table_runs_heads by blast
qed

text \<open>
  The scenario of the specification: two table rows and a paragraph.
\<close>

theorem merge_scenario_witness:
  "table_contents_ok
     [[(''content_type'', JStr ''table''), (''content'', JStr ''a|b''), (''tag_name'', JStr ''tr''),
       (''attributes'', JObj []), (''level'', JNull), (''list_type'', JNull),
       (''table_info'', JObj []), (''position'', JInt 0)],
      [(''content_type'', JStr ''table''), (''content'', JStr ''c|d''), (''tag_name'', JStr ''tr''),
       (''attributes'', JObj []), (''level'', JNull), (''list_type'', JNull),
       (''table_info'', JObj []), (''position'', JInt 1)],
      [(''content_type'', JStr ''paragraph''), (''content'', JStr ''x''), (''tag_name'', JStr ''p''),
       (''attributes'', JObj []), (''level'', JNull), (''list_type'', JNull),
       (''table_info'', JNull), (''position'', JInt 2)]]
   \<and> merge_consecutive_table_chunks
     [[(''content_type'', JStr ''table''), (''content'', JStr ''a|b''), (''tag_name'', JStr ''tr''),
       (''attributes'', JObj []), (''level'', JNull), (''list_type'', JNull),
       (''table_info'', JObj []), (''position'', JInt 0)],
      [(''content_type'', JStr ''table''), (''content'', JStr ''c|d''), (''tag_name'', JStr ''tr''),
       (''attributes'', JObj []), (''level'', JNull), (''list_type'', JNull),
       (''table_info'', JObj []), (''position'', JInt 1)],
      [(''content_type'', JStr ''paragraph''), (''content'', JStr ''x''), (''tag_name'', JStr ''p''),
       (''attributes'', JObj []), (''level'', JNull), (''list_type'', JNull),
       (''table_info'', JNull), (''position'', JInt 2)]]
   = Inr
     [[(''content_type'', JStr ''table''), (''content'', JStr ''a|b | c|d''), (''tag_name'', JStr ''tr''),
       (''attributes'', JObj []), (''position'', JInt 0),
       (''table_info'', JObj [(''merged_chunks'', JInt 2),
                              (''original_positions'', JArr [JInt 0, JInt 1])])],
      [(''content_type'', JStr ''paragraph''), (''content'', JStr ''x''), (''tag_name'', JStr ''p''),
       (''attributes'', JObj []), (''level'', JNull), (''list_type'', JNull),
       (''table_info'', JNull), (''position'', JInt 2)]]"
proof -
  let ?chunks = "[[(''content_type'', JStr ''table''), (''content'', JStr ''a|b''), (''tag_name'', JStr ''tr''),
       (''attributes'', JObj []), (''level'', JNull), (''list_type'', JNull),
       (''table_info'', JObj []), (''position'', JInt 0)],
      [(''content_type'', JStr ''table''), (''content'', JStr ''c|d''), (''tag_name'', JStr ''tr''),
       (''attributes'', JObj []), (''level'', JNull), (''list_type'', JNull),
       (''table_info'', JObj []), (''position'', JInt 1)],
      [(''content_type'', JStr ''paragraph''), (''content'', JStr ''x''), (''tag_name'', JStr ''p''),
       (''attributes'', JObj []), (''level'', JNull), (''list_type'', JNull),
       (''table_info'', JNull), (''position'', JInt 2)]]"
  have ok: "table_contents_ok ?chunks"
    by (simp add: table_contents_ok_def is_table_def has_str_content_def dict_get_def)
  have runs: "table_runs ?chunks = [[?chunks ! 0, ?chunks ! 1], [?chunks ! 2]]"
    by (simp add: is_table_def dict_get_def)
  have m: "merge_consecutive_table_chunks ?chunks = Inr (map collapse_run (table_runs ?chunks))"
    using merge_collapses_table_runs [OF ok] by (rule conjunct1)
  have c: "map collapse_run [[?chunks ! 0, ?chunks ! 1], [?chunks ! 2]] = [[(''content_type'', JStr ''table''), (''content'', JStr ''a|b | c|d''), (''tag_name'', JStr ''tr''),
       (''attributes'', JObj []), (''position'', JInt 0),
       (''table_info'', JObj [(''merged_chunks'', JInt 2),
                              (''original_positions'', JArr [JInt 0, JInt 1])])], ?chunks ! 2]"
    by (simp add: collapse_run_def run_contents_def content_text_def strip_def dict_get_def is_space_def)
  show ?thesis
    using ok by (simp only: m runs c) simp
qed

text \<open>
  C1 as stated fails where a content of the run is empty: the merged content is \<open>a\<close>,
  not the join \<open>' | a'\<close> of the run's contents.
\<close>

theorem merge_joins_raw_contents_counterexample:
  "merge_consecutive_table_chunks
     [[(''content_type'', JStr ''table''), (''content'', JStr []), (''tag_name'', JStr ''tr''),
       (''attributes'', JObj []), (''level'', JNull), (''list_type'', JNull),
       (''table_info'', JObj []), (''position'', JInt 0)],
      [(''content_type'', JStr ''table''), (''content'', JStr ''a''), (''tag_name'', JStr ''tr''),
       (''attributes'', JObj []), (''level'', JNull), (''list_type'', JNull),
       (''table_info'', JObj []), (''position'', JInt 1)]]
   = Inr
     [[(''content_type'', JStr ''table''), (''content'', JStr ''a''), (''tag_name'', JStr ''tr''),
       (''attributes'', JObj []), (''position'', JInt 0),
       (''table_info'', JObj [(''merged_chunks'', JInt 2),
                              (''original_positions'', JArr [JInt 0, JInt 1])])]]
   \<and> str_join '' | '' [[], ''a''] = '' | a''
   \<and> ''a'' \<noteq> '' | a''"
  by (simp add: merge_consecutive_table_chunks_def is_table_def dict_get_def content_strip_def
        merged_chunk_def strip_def is_space_def)

lemma merge_eq:
  "merge_consecutive_table_chunks chunks =
     (if table_contents_ok chunks then Inr (map collapse_run (table_runs chunks))
      else Inl AttributeError)"
  by (cases chunks) (simp_all add: merge_consecutive_table_chunks_def merge_loop_eq table_contents_ok_def)

lemma collapse_run_single: "collapse_run [c] = c"
  by (simp add: collapse_run_def)

lemma table_runs_no_adjacent:
  "no_adjacent_tables xs \<Longrightarrow> map collapse_run (table_runs xs) = xs"
proof (induction xs rule: table_runs.induct)
  case 1
  show ?case by simp
next
  case (2 c cs)
  show ?case
  proof (cases "is_table c")
    case False
    with 2 show ?thesis
      by (cases cs) (simp_all add: collapse_run_single)
  next
    case True
    from "2.prems" True have tw: "takeWhile is_table cs = []" and dw: "dropWhile is_table cs = cs"
      by (cases cs; simp)+
    from "2.prems" have "no_adjacent_tables cs"
      by (cases cs) simp_all
    with "2.IH"(1) [OF True] dw have "map collapse_run (table_runs cs) = cs"
      by simp
    with True tw dw show ?thesis
      by (simp add: collapse_run_single)
  qed
qed

lemma is_table_collapse_run:
  "run \<in> set (table_runs xs) \<Longrightarrow> is_table (collapse_run run) = is_table (hd run)"
proof -
  assume "run \<in> set (table_runs xs)"
  from table_runs_shape [OF this]
  have ne: "run \<noteq> []" and sh: "list_all is_table run \<or> (\<exists>c. run = [c] \<and> \<not> is_table c)"
    by simp_all
  show ?thesis
  proof (cases "2 \<le> length run")
    case True
    with sh ne have "is_table (hd run)" by (cases run) auto
    moreover from True have "is_table (collapse_run run)"
      by (simp add: collapse_run_def is_table_def dict_get_def)
    ultimately show ?thesis by simp
  next
    case False
    then show ?thesis by (simp add: collapse_run_def)
  qed
qed

lemma no_adjacent_map_cong:
  "(\<And>r. r \<in> set rs \<Longrightarrow> is_table (f r) = is_table (g r)) \<Longrightarrow>
   no_adjacent_tables (map f rs) = no_adjacent_tables (map g rs)"
  by (induction rs rule: induct_list012) simp_all

lemma has_str_content_collapse_run:
  "2 \<le> length run \<Longrightarrow> has_str_content (collapse_run run)"
  by (simp add: collapse_run_def has_str_content_def dict_get_def)

lemma hd_run_in_set:
  assumes "run \<in> set (table_runs xs)"
  shows "hd run \<in> set xs"
proof -
  from table_runs_shape [OF assms] have "run \<noteq> []" by simp
  then have "hd run \<in> set run" by simp
  with assms have "hd run \<in> set (concat (table_runs xs))" by auto
  then show ?thesis by (simp add: concat_table_runs)
qed

lemma table_contents_ok_merged:
  assumes "table_contents_ok xs"
  shows "table_contents_ok (map collapse_run (table_runs xs))"
  unfolding table_contents_ok_def list_all_iff
proof (intro ballI impI)
  fix c
  assume "c \<in> set (map collapse_run (table_runs xs))" and t: "is_table c"
  then obtain run where r: "run \<in> set (table_runs xs)" and c: "c = collapse_run run"
    by auto
  show "has_str_content c"
  proof (cases "2 \<le> length run")
    case True
    then show ?thesis using c by (simp add: has_str_content_collapse_run)
  next
    case False
    then have "c = hd run" using c by (simp add: collapse_run_def)
    with hd_run_in_set [OF r] t assms show ?thesis
      by (auto simp: table_contents_ok_def list_all_iff)
  qed
qed

text \<open>
  C4. On a chunk sequence in which no two neighbours are both table chunks (and whose
  table chunks have string content), the merge returns the sequence unchanged. Whatever
  the merge returns has no two neighbouring table chunks, and merging it again returns it
  unchanged.
\<close>

theorem merge_idempotent:
  "(no_adjacent_tables chunks \<and> table_contents_ok chunks \<longrightarrow>
      merge_consecutive_table_chunks chunks = Inr chunks)
   \<and> (merge_consecutive_table_chunks chunks = Inr merged \<longrightarrow>
      no_adjacent_tables merged \<and> merge_consecutive_table_chunks merged = Inr merged)"
proof (intro conjI impI)
  assume "no_adjacent_tables chunks \<and> table_contents_ok chunks"
  then show "merge_consecutive_table_chunks chunks = Inr chunks"
    by (simp add: merge_eq table_runs_no_adjacent)
next
  assume m: "merge_consecutive_table_chunks chunks = Inr merged"
  then have ok: "table_contents_ok chunks" and eq: "merged = map collapse_run (table_runs chunks)"
    by (auto simp: merge_eq split: if_splits)
  have "no_adjacent_tables (map collapse_run (table_runs chunks))
          = no_adjacent_tables (map hd (table_runs chunks))"
    by (rule no_adjacent_map_cong) (rule is_table_collapse_run)
  then show na: "no_adjacent_tables merged"
    using eq table_runs_heads by simp
  from table_contents_ok_merged [OF ok] eq have "table_contents_ok merged"
    by simp
  with na show "merge_consecutive_table_chunks merged = Inr merged"
    by (simp add: merge_eq table_runs_no_adjacent)
qed

text \<open>
  A table chunk followed by a paragraph is returned as it is; the scenario's result is a
  fixed point of the merge.
\<close>

theorem merge_idempotent_witness:
  "no_adjacent_tables
    [[(''content_type'', JStr ''table''), (''content'', JStr ''a|b''), (''tag_name'', JStr ''tr''),
       (''attributes'', JObj []), (''level'', JNull), (''list_type'', JNull),
       (''table_info'', JObj []), (''position'', JInt 0)],
     [(''content_type'', JStr ''paragraph''), (''content'', JStr ''x''), (''tag_name'', JStr ''p''),
       (''attributes'', JObj []), (''level'', JNull), (''list_type'', JNull),
       (''table_info'', JNull), (''position'', JInt 1)]]
   \<and> table_contents_ok
    [[(''content_type'', JStr ''table''), (''content'', JStr ''a|b''), (''tag_name'', JStr ''tr''),
       (''attributes'', JObj []), (''level'', JNull), (''list_type'', JNull),
       (''table_info'', JObj []), (''position'', JInt 0)],
     [(''content_type'', JStr ''paragraph''), (''content'', JStr ''x''), (''tag_name'', JStr ''p''),
       (''attributes'', JObj []), (''level'', JNull), (''list_type'', JNull),
       (''table_info'', JNull), (''position'', JInt 1)]]
   \<and> merge_consecutive_table_chunks
    [[(''content_type'', JStr ''table''), (''content'', JStr ''a|b''), (''tag_name'', JStr ''tr''),
       (''attributes'', JObj []), (''level'', JNull), (''list_type'', JNull),
       (''table_info'', JObj []), (''position'', JInt 0)],
     [(''content_type'', JStr ''paragraph''), (''content'', JStr ''x''), (''tag_name'', JStr ''p''),
       (''attributes'', JObj []), (''level'', JNull), (''list_type'', JNull),
       (''table_info'', JNull), (''position'', JInt 1)]]
   = Inr
    [[(''content_type'', JStr ''table''), (''content'', JStr ''a|b''), (''tag_name'', JStr ''tr''),
       (''attributes'', JObj []), (''level'', JNull), (''list_type'', JNull),
       (''table_info'', JObj []), (''position'', JInt 0)],
     [(''content_type'', JStr ''paragraph''), (''content'', JStr ''x''), (''tag_name'', JStr ''p''),
       (''attributes'', JObj []), (''level'', JNull), (''list_type'', JNull),
       (''table_info'', JNull), (''position'', JInt 1)]]
   \<and> merge_consecutive_table_chunks
    [[(''content_type'', JStr ''table''), (''content'', JStr ''a|b''), (''tag_name'', JStr ''tr''),
       (''attributes'', JObj []), (''level'', JNull), (''list_type'', JNull),
       (''table_info'', JObj []), (''position'', JInt 0)],
     [(''content_type'', JStr ''table''), (''content'', JStr ''c|d''), (''tag_name'', JStr ''tr''),
       (''attributes'', JObj []), (''level'', JNull), (''list_type'', JNull),
       (''table_info'', JObj []), (''position'', JInt 1)],
     [(''content_type'', JStr ''paragraph''), (''content'', JStr ''x''), (''tag_name'', JStr ''p''),
       (''attributes'', JObj []), (''level'', JNull), (''list_type'', JNull),
       (''table_info'', JNull), (''position'', JInt 2)]]
   = Inr
    [[(''content_type'', JStr ''table''), (''content'', JStr ''a|b | c|d''), (''tag_name'', JStr ''tr''),
       (''attributes'', JObj []), (''position'', JInt 0),
       (''table_info'', JObj [(''merged_chunks'', JInt 2),
          (''original_positions'', JArr [JInt 0, JInt 1])])],
     [(''content_type'', JStr ''paragraph''), (''content'', JStr ''x''), (''tag_name'', JStr ''p''),
       (''attributes'', JObj []), (''level'', JNull), (''list_type'', JNull),
       (''table_info'', JNull), (''position'', JInt 2)]]
   \<and> no_adjacent_tables
    [[(''content_type'', JStr ''table''), (''content'', JStr ''a|b | c|d''), (''tag_name'', JStr ''tr''),
       (''attributes'', JObj []), (''position'', JInt 0),
       (''table_info'', JObj [(''merged_chunks'', JInt 2),
          (''original_positions'', JArr [JInt 0, JInt 1])])],
     [(''content_type'', JStr ''paragraph''), (''content'', JStr ''x''), (''tag_name'', JStr ''p''),
       (''attributes'', JObj []), (''level'', JNull), (''list_type'', JNull),
       (''table_info'', JNull), (''position'', JInt 2)]]
   \<and> merge_consecutive_table_chunks
    [[(''content_type'', JStr ''table''), (''content'', JStr ''a|b | c|d''), (''tag_name'', JStr ''tr''),
       (''attributes'', JObj []), (''position'', JInt 0),
       (''table_info'', JObj [(''merged_chunks'', JInt 2),
          (''original_positions'', JArr [JInt 0, JInt 1])])],
     [(''content_type'', JStr ''paragraph''), (''content'', JStr ''x''), (''tag_name'', JStr ''p''),
       (''attributes'', JObj []), (''level'', JNull), (''list_type'', JNull),
       (''table_info'', JNull), (''position'', JInt 2)]]
   = Inr
    [[(''content_type'', JStr ''table''), (''content'', JStr ''a|b | c|d''), (''tag_name'', JStr ''tr''),
       (''attributes'', JObj []), (''position'', JInt 0),
       (''table_info'', JObj [(''merged_chunks'', JInt 2),
          (''original_positions'', JArr [JInt 0, JInt 1])])],
     [(''content_type'', JStr ''paragraph''), (''content'', JStr ''x''), (''tag_name'', JStr ''p''),
       (''attributes'', JObj []), (''level'', JNull), (''list_type'', JNull),
       (''table_info'', JNull), (''position'', JInt 2)]]"
proof -
  let ?ex = "[[(''content_type'', JStr ''table''), (''content'', JStr ''a|b''), (''tag_name'', JStr ''tr''),
       (''attributes'', JObj []), (''level'', JNull), (''list_type'', JNull),
       (''table_info'', JObj []), (''position'', JInt 0)],
     [(''content_type'', JStr ''paragraph''), (''content'', JStr ''x''), (''tag_name'', JStr ''p''),
       (''attributes'', JObj []), (''level'', JNull), (''list_type'', JNull),
       (''table_info'', JNull), (''position'', JInt 1)]]"
  let ?scen = "[[(''content_type'', JStr ''table''), (''content'', JStr ''a|b''), (''tag_name'', JStr ''tr''),
       (''attributes'', JObj []), (''level'', JNull), (''list_type'', JNull),
       (''table_info'', JObj []), (''position'', JInt 0)],
     [(''content_type'', JStr ''table''), (''content'', JStr ''c|d''), (''tag_name'', JStr ''tr''),
       (''attributes'', JObj []), (''level'', JNull), (''list_type'', JNull),
       (''table_info'', JObj []), (''position'', JInt 1)],
     [(''content_type'', JStr ''paragraph''), (''content'', JStr ''x''), (''tag_name'', JStr ''p''),
       (''attributes'', JObj []), (''level'', JNull), (''list_type'', JNull),
       (''table_info'', JNull), (''position'', JInt 2)]]"
  let ?merged = "[[(''content_type'', JStr ''table''), (''content'', JStr ''a|b | c|d''), (''tag_name'', JStr ''tr''),
       (''attributes'', JObj []), (''position'', JInt 0),
       (''table_info'', JObj [(''merged_chunks'', JInt 2),
          (''original_positions'', JArr [JInt 0, JInt 1])])],
     [(''content_type'', JStr ''paragraph''), (''content'', JStr ''x''), (''tag_name'', JStr ''p''),
       (''attributes'', JObj []), (''level'', JNull), (''list_type'', JNull),
       (''table_info'', JNull), (''position'', JInt 2)]]"
  have h: "no_adjacent_tables ?ex \<and> table_contents_ok ?ex"
    by (simp add: table_contents_ok_def is_table_def has_str_content_def dict_get_def)
  have a: "merge_consecutive_table_chunks ?ex = Inr ?ex"
    using merge_idempotent [of ?ex ?ex, THEN conjunct1, THEN mp, OF h] .
  have m: "merge_consecutive_table_chunks ?scen = Inr ?merged"
    by (simp add: merge_consecutive_table_chunks_def is_table_def dict_get_def content_strip_def
          merged_chunk_def strip_def is_space_def)
  have b: "no_adjacent_tables ?merged \<and> merge_consecutive_table_chunks ?merged = Inr ?merged"
    using merge_idempotent [of ?scen ?merged, THEN conjunct2, THEN mp, OF m] .
  from h a m b show ?thesis
    by (simp only: simp_thms)
qed

lemma run_contents_blank:
  "strip (content_text e) = [] \<Longrightarrow> run_contents (xs @ e # ys) = run_contents (xs @ ys)"
  by (simp add: run_contents_def)

text \<open>
  C7. In the output chunk of a run of two or more table chunks, a chunk \<open>e\<close> of the run
  whose trimmed content is empty adds nothing to the content, which is the join of the
  other chunks' non-empty trimmed contents, and is counted in
  \<open>table_info.merged_chunks\<close>, which is the length of the whole run. The \<open>i\<close>-th output
  chunk comes from the \<open>i\<close>-th segment of the input.
\<close>

theorem merge_counts_empty_contents:
  assumes "table_contents_ok chunks"
  shows "\<exists>out. merge_consecutive_table_chunks chunks = Inr out
     \<and> length out = length (table_runs chunks)
     \<and> (\<forall>i xs e ys.
          i < length out \<and> table_runs chunks ! i = xs @ e # ys \<and> xs @ ys \<noteq> []
          \<and> strip (content_text e) = [] \<longrightarrow>
            map_of (out ! i) ''content'' = Some (JStr (str_join '' | '' (run_contents (xs @ ys))))
            \<and> merged_chunks_of (out ! i) = Some (JInt (int (length xs + 1 + length ys))))"
proof (intro exI conjI allI impI)
  show "merge_consecutive_table_chunks chunks = Inr (map collapse_run (table_runs chunks))"
    using assms by (simp add: merge_eq)
  show "length (map collapse_run (table_runs chunks)) = length (table_runs chunks)"
    by simp
next
  fix i xs e ys
  assume h: "i < length (map collapse_run (table_runs chunks))
       \<and> table_runs chunks ! i = xs @ e # ys \<and> xs @ ys \<noteq> [] \<and> strip (content_text e) = []"
  then have two: "2 \<le> length (xs @ e # ys)"
    by (cases xs; cases ys) simp_all
  from h have out: "map collapse_run (table_runs chunks) ! i = collapse_run (xs @ e # ys)"
    by simp
  from h have rc: "run_contents (xs @ e # ys) = run_contents (xs @ ys)"
    by (simp add: run_contents_blank)
  from collapse_run_facts [of "xs @ e # ys"] two rc
  show "map_of (map collapse_run (table_runs chunks) ! i) ''content''
          = Some (JStr (str_join '' | '' (run_contents (xs @ ys))))"
    unfolding out by simp
  from collapse_run_facts [of "xs @ e # ys"] two
  show "merged_chunks_of (map collapse_run (table_runs chunks) ! i)
          = Some (JInt (int (length xs + 1 + length ys)))"
    unfolding out by simp
qed

text \<open>
  Three table rows, the middle one empty: the content is \<open>a | b\<close> and three chunks are
  counted.
\<close>

theorem merge_counts_empty_contents_witness:
  "table_contents_ok
    [[(''content_type'', JStr ''table''), (''content'', JStr ''a''), (''tag_name'', JStr ''tr''),
       (''attributes'', JObj []), (''level'', JNull), (''list_type'', JNull),
       (''table_info'', JObj []), (''position'', JInt 0)],
     [(''content_type'', JStr ''table''), (''content'', JStr []), (''tag_name'', JStr ''tr''),
       (''attributes'', JObj []), (''level'', JNull), (''list_type'', JNull),
       (''table_info'', JObj []), (''position'', JInt 1)],
     [(''content_type'', JStr ''table''), (''content'', JStr ''b''), (''tag_name'', JStr ''tr''),
       (''attributes'', JObj []), (''level'', JNull), (''list_type'', JNull),
       (''table_info'', JObj []), (''position'', JInt 2)]]
   \<and> strip (content_text
     [(''content_type'', JStr ''table''), (''content'', JStr []), (''tag_name'', JStr ''tr''),
       (''attributes'', JObj []), (''level'', JNull), (''list_type'', JNull),
       (''table_info'', JObj []), (''position'', JInt 1)]) = []
   \<and> (\<exists>out. merge_consecutive_table_chunks
    [[(''content_type'', JStr ''table''), (''content'', JStr ''a''), (''tag_name'', JStr ''tr''),
       (''attributes'', JObj []), (''level'', JNull), (''list_type'', JNull),
       (''table_info'', JObj []), (''position'', JInt 0)],
     [(''content_type'', JStr ''table''), (''content'', JStr []), (''tag_name'', JStr ''tr''),
       (''attributes'', JObj []), (''level'', JNull), (''list_type'', JNull),
       (''table_info'', JObj []), (''position'', JInt 1)],
     [(''content_type'', JStr ''table''), (''content'', JStr ''b''), (''tag_name'', JStr ''tr''),
       (''attributes'', JObj []), (''level'', JNull), (''list_type'', JNull),
       (''table_info'', JObj []), (''position'', JInt 2)]]
      = Inr out
      \<and> map_of (out ! 0) ''content'' = Some (JStr ''a | b'')
      \<and> merged_chunks_of (out ! 0) = Some (JInt 3))"
proof -
  let ?t0 = "[(''content_type'', JStr ''table''), (''content'', JStr ''a''), (''tag_name'', JStr ''tr''),
       (''attributes'', JObj []), (''level'', JNull), (''list_type'', JNull),
       (''table_info'', JObj []), (''position'', JInt 0)]"
  let ?t1 = "[(''content_type'', JStr ''table''), (''content'', JStr []), (''tag_name'', JStr ''tr''),
       (''attributes'', JObj []), (''level'', JNull), (''list_type'', JNull),
       (''table_info'', JObj []), (''position'', JInt 1)]"
  let ?t2 = "[(''content_type'', JStr ''table''), (''content'', JStr ''b''), (''tag_name'', JStr ''tr''),
       (''attributes'', JObj []), (''level'', JNull), (''list_type'', JNull),
       (''table_info'', JObj []), (''position'', JInt 2)]"
  let ?ex = "[?t0, ?t1, ?t2]"
  have ok: "table_contents_ok ?ex"
    by (simp add: table_contents_ok_def is_table_def has_str_content_def dict_get_def)
  have blank: "strip (content_text ?t1) = []"
    by (simp add: content_text_def dict_get_def strip_def)
  have runs: "table_runs ?ex = [[?t0, ?t1, ?t2]]"
    by (simp add: is_table_def dict_get_def)
  have rc: "str_join '' | '' (run_contents ([?t0] @ [?t2])) = ''a | b''"
    by (simp add: run_contents_def content_text_def dict_get_def strip_def is_space_def)
  from merge_counts_empty_contents [OF ok]
  obtain out where m: "merge_consecutive_table_chunks ?ex = Inr out"
    and len: "length out = length (table_runs ?ex)"
    and all: "\<And>i xs e ys. i < length out \<and> table_runs ?ex ! i = xs @ e # ys \<and> xs @ ys \<noteq> []
          \<and> strip (content_text e) = [] \<Longrightarrow>
            map_of (out ! i) ''content'' = Some (JStr (str_join '' | '' (run_contents (xs @ ys))))
            \<and> merged_chunks_of (out ! i) = Some (JInt (int (length xs + 1 + length ys)))"
    by blast
  have pre: "0 < length out \<and> table_runs ?ex ! 0 = [?t0] @ ?t1 # [?t2] \<and> [?t0] @ [?t2] \<noteq> []
          \<and> strip (content_text ?t1) = []"
    using blank by (simp only: len runs) simp
  from all [OF pre] have
    "map_of (out ! 0) ''content'' = Some (JStr ''a | b'')
      \<and> merged_chunks_of (out ! 0) = Some (JInt 3)"
    by (simp only: rc) simp
  with m have "\<exists>out. merge_consecutive_table_chunks ?ex = Inr out
      \<and> map_of (out ! 0) ''content'' = Some (JStr ''a | b'')
      \<and> merged_chunks_of (out ! 0) = Some (JInt 3)"
    by (intro exI [of _ out]) (simp only: simp_thms)
  with ok blank show ?thesis
    by (simp only: simp_thms)
qed

lemma collapse_run_frame:
  assumes "2 \<le> length run"
  shows "map_of (collapse_run run) ''tag_name'' = Some (dict_get (hd run) ''tag_name'' (JStr []))"
    and "map_of (collapse_run run) ''attributes'' = Some (dict_get (hd run) ''attributes'' (JObj []))"
    and "map_of (collapse_run run) ''position'' = Some (dict_get (hd run) ''position'' (JInt 0))"
    and "map_of (collapse_run run) ''content_type'' = Some (JStr ''table'')"
    and "map fst (collapse_run run)
           = [''content_type'', ''content'', ''tag_name'', ''attributes'', ''position'', ''table_info'']"
    and "\<exists>info. map_of (collapse_run run) ''table_info'' = Some (JObj info)
           \<and> map fst info = [''merged_chunks'', ''original_positions'']"
  using assms by (simp_all add: collapse_run_def)

lemma to_dict_get:
  "dict_get (to_dict cc) k d =
     (if k = ''content_type'' then JStr (content_type_value (content_type cc))
      else if k = ''content'' then JStr (content cc)
      else if k = ''tag_name'' then JStr (tag_name cc)
      else if k = ''attributes'' then JObj (attributes cc)
      else if k = ''level'' then (case level cc of None \<Rightarrow> JNull | Some n \<Rightarrow> JInt n)
      else if k = ''list_type'' then (case list_type cc of None \<Rightarrow> JNull | Some t \<Rightarrow> JStr t)
      else if k = ''table_info'' then (case table_info cc of None \<Rightarrow> JNull | Some t \<Rightarrow> JObj t)
      else if k = ''position'' then (case position cc of None \<Rightarrow> JNull | Some n \<Rightarrow> JInt n)
      else d)"
  by (simp add: to_dict_def dict_get_def)

lemma collapse_run_get:
  assumes "2 \<le> length run"
  shows "dict_get (collapse_run run) k d =
     (if k = ''content_type'' then JStr ''table''
      else if k = ''content'' then JStr (str_join '' | '' (run_contents run))
      else if k = ''tag_name'' then dict_get (hd run) ''tag_name'' (JStr [])
      else if k = ''attributes'' then dict_get (hd run) ''attributes'' (JObj [])
      else if k = ''position'' then dict_get (hd run) ''position'' (JInt 0)
      else if k = ''table_info'' then
        JObj [(''merged_chunks'', JInt (int (length run))),
              (''original_positions'', JArr (map (\<lambda>c. dict_get c ''position'' (JInt 0)) run))]
      else d)"
  using assms by (simp add: collapse_run_def dict_get_def)

text \<open>
  When the first chunk of a run is a dict the classifier writes for a chunk without level
  and list type, every key other than \<open>content\<close> and \<open>table_info\<close> reads the same
  through \<open>chunk.get(k)\<close> on the merged chunk as on the first chunk.
\<close>

lemma collapse_run_same_reads:
  assumes two: "2 \<le> length run" and t: "is_table (hd run)"
    and cc: "hd run = to_dict cc" "level cc = None" "list_type cc = None"
    and k: "k \<noteq> ''content''" "k \<noteq> ''table_info''"
  shows "dict_get (collapse_run run) k JNull = dict_get (hd run) k JNull"
proof -
  from t cc(1) have ct: "JStr (content_type_value (content_type cc)) = JStr ''table''"
    by (simp add: is_table_def to_dict_get)
  have l: "dict_get (collapse_run run) k JNull =
     (if k = ''content_type'' then JStr ''table''
      else if k = ''tag_name'' then dict_get (to_dict cc) ''tag_name'' (JStr [])
      else if k = ''attributes'' then dict_get (to_dict cc) ''attributes'' (JObj [])
      else if k = ''position'' then dict_get (to_dict cc) ''position'' (JInt 0)
      else JNull)"
    using k by (simp add: collapse_run_get [OF two] cc(1))
  have r: "dict_get (to_dict cc) k JNull =
     (if k = ''content_type'' then JStr ''table''
      else if k = ''tag_name'' then dict_get (to_dict cc) ''tag_name'' (JStr [])
      else if k = ''attributes'' then dict_get (to_dict cc) ''attributes'' (JObj [])
      else if k = ''position'' then dict_get (to_dict cc) ''position'' (JInt 0)
      else JNull)"
    using k cc(2,3) ct by (simp add: to_dict_get)
  show ?thesis
    unfolding l cc(1) r by (rule refl)
qed

lemma collapse_run_dropped:
  assumes "2 \<le> length run"
    and "k \<notin> set [''content_type'', ''content'', ''tag_name'', ''attributes'', ''position'',
               ''table_info'']"
  shows "map_of (collapse_run run) k = None"
  using assms by (simp add: collapse_run_def)

text \<open>
  C10 (amended). The output chunk of a run of two or more table chunks is a new dict with
  exactly the six keys \<open>content_type\<close>, \<open>content\<close>, \<open>tag_name\<close>, \<open>attributes\<close>,
  \<open>position\<close>, \<open>table_info\<close>. Its \<open>tag_name\<close>, \<open>attributes\<close> and \<open>position\<close> are
  those of the first chunk of the run (the defaults \<open>''\<close>, \<open>{}\<close> and \<open>0\<close> where the
  first chunk has no such key), its \<open>content_type\<close> is \<open>table\<close> as the first chunk's
  is, and its \<open>table_info\<close> has exactly the keys \<open>merged_chunks\<close> and
  \<open>original_positions\<close>. Every other key of the first chunk (\<open>level\<close>,
  \<open>list_type\<close>, any further key) is not carried over.
\<close>

theorem merged_chunk_frame:
  assumes "table_contents_ok chunks"
  shows "\<exists>out. merge_consecutive_table_chunks chunks = Inr out
     \<and> length out = length (table_runs chunks)
     \<and> (\<forall>i. i < length out \<and> 2 \<le> length (table_runs chunks ! i) \<longrightarrow>
          map_of (out ! i) ''tag_name''
            = Some (dict_get (hd (table_runs chunks ! i)) ''tag_name'' (JStr []))
          \<and> map_of (out ! i) ''attributes''
            = Some (dict_get (hd (table_runs chunks ! i)) ''attributes'' (JObj []))
          \<and> map_of (out ! i) ''position''
            = Some (dict_get (hd (table_runs chunks ! i)) ''position'' (JInt 0))
          \<and> map_of (out ! i) ''content_type'' = Some (JStr ''table'')
          \<and> is_table (hd (table_runs chunks ! i))
          \<and> map fst (out ! i)
            = [''content_type'', ''content'', ''tag_name'', ''attributes'', ''position'',
               ''table_info'']
          \<and> (\<exists>info. map_of (out ! i) ''table_info'' = Some (JObj info)
                \<and> map fst info = [''merged_chunks'', ''original_positions''])
          \<and> (\<forall>k. k \<notin> set [''content_type'', ''content'', ''tag_name'', ''attributes'', ''position'',
               ''table_info''] \<longrightarrow> map_of (out ! i) k = None))"
proof -
  let ?out = "map collapse_run (table_runs chunks)"
  have m: "merge_consecutive_table_chunks chunks = Inr ?out"
    using assms by (simp add: merge_eq)
  have len: "length ?out = length (table_runs chunks)"
    by simp
  have body:
    "map_of (?out ! i) ''tag_name''
            = Some (dict_get (hd (table_runs chunks ! i)) ''tag_name'' (JStr []))
          \<and> map_of (?out ! i) ''attributes''
            = Some (dict_get (hd (table_runs chunks ! i)) ''attributes'' (JObj []))
          \<and> map_of (?out ! i) ''position''
            = Some (dict_get (hd (table_runs chunks ! i)) ''position'' (JInt 0))
          \<and> map_of (?out ! i) ''content_type'' = Some (JStr ''table'')
          \<and> is_table (hd (table_runs chunks ! i))
          \<and> map fst (?out ! i)
            = [''content_type'', ''content'', ''tag_name'', ''attributes'', ''position'',
               ''table_info'']
          \<and> (\<exists>info. map_of (?out ! i) ''table_info'' = Some (JObj info)
                \<and> map fst info = [''merged_chunks'', ''original_positions''])
          \<and> (\<forall>k. k \<notin> set [''content_type'', ''content'', ''tag_name'', ''attributes'', ''position'',
               ''table_info''] \<longrightarrow> map_of (?out ! i) k = None)"
    if h: "i < length ?out \<and> 2 \<le> length (table_runs chunks ! i)" for i
  proof -
    let ?run = "table_runs chunks ! i"
    from h have two: "2 \<le> length ?run" and out: "?out ! i = collapse_run ?run"
      and mem: "?run \<in> set (table_runs chunks)"
      by simp_all
    from table_runs_shape [OF mem] two have tab: "is_table (hd ?run)"
      by (cases ?run) auto
    have dropped: "\<forall>k. k \<notin> set [''content_type'', ''content'', ''tag_name'', ''attributes'', ''position'',
               ''table_info''] \<longrightarrow> map_of (collapse_run ?run) k = None"
      using collapse_run_dropped [OF two] by blast
    show ?thesis
      unfolding out using collapse_run_frame [OF two] tab dropped by blast
  qed
  from m len body show ?thesis
    by blast
qed

text \<open>
  The scenario: the merged chunk of the two rows keeps the tag name, the attributes and
  the position of the first row, and has no \<open>level\<close> and no \<open>list_type\<close>.
\<close>

theorem merged_chunk_frame_witness:
  "table_contents_ok
    [[(''content_type'', JStr ''table''), (''content'', JStr ''a|b''), (''tag_name'', JStr ''tr''),
       (''attributes'', JObj []), (''level'', JNull), (''list_type'', JNull),
       (''table_info'', JObj []), (''position'', JInt 0)],
      [(''content_type'', JStr ''table''), (''content'', JStr ''c|d''), (''tag_name'', JStr ''tr''),
       (''attributes'', JObj []), (''level'', JNull), (''list_type'', JNull),
       (''table_info'', JObj []), (''position'', JInt 1)],
      [(''content_type'', JStr ''paragraph''), (''content'', JStr ''x''), (''tag_name'', JStr ''p''),
       (''attributes'', JObj []), (''level'', JNull), (''list_type'', JNull),
       (''table_info'', JNull), (''position'', JInt 2)]]
   \<and> 2 \<le> length (table_runs
    [[(''content_type'', JStr ''table''), (''content'', JStr ''a|b''), (''tag_name'', JStr ''tr''),
       (''attributes'', JObj []), (''level'', JNull), (''list_type'', JNull),
       (''table_info'', JObj []), (''position'', JInt 0)],
      [(''content_type'', JStr ''table''), (''content'', JStr ''c|d''), (''tag_name'', JStr ''tr''),
       (''attributes'', JObj []), (''level'', JNull), (''list_type'', JNull),
       (''table_info'', JObj []), (''position'', JInt 1)],
      [(''content_type'', JStr ''paragraph''), (''content'', JStr ''x''), (''tag_name'', JStr ''p''),
       (''attributes'', JObj []), (''level'', JNull), (''list_type'', JNull),
       (''table_info'', JNull), (''position'', JInt 2)]] ! 0)
   \<and> (\<exists>out. merge_consecutive_table_chunks
    [[(''content_type'', JStr ''table''), (''content'', JStr ''a|b''), (''tag_name'', JStr ''tr''),
       (''attributes'', JObj []), (''level'', JNull), (''list_type'', JNull),
       (''table_info'', JObj []), (''position'', JInt 0)],
      [(''content_type'', JStr ''table''), (''content'', JStr ''c|d''), (''tag_name'', JStr ''tr''),
       (''attributes'', JObj []), (''level'', JNull), (''list_type'', JNull),
       (''table_info'', JObj []), (''position'', JInt 1)],
      [(''content_type'', JStr ''paragraph''), (''content'', JStr ''x''), (''tag_name'', JStr ''p''),
       (''attributes'', JObj []), (''level'', JNull), (''list_type'', JNull),
       (''table_info'', JNull), (''position'', JInt 2)]]
      = Inr out
      \<and> map_of (out ! 0) ''tag_name'' = Some (JStr ''tr'')
      \<and> map_of (out ! 0) ''attributes'' = Some (JObj [])
      \<and> map_of (out ! 0) ''position'' = Some (JInt 0)
      \<and> map_of (out ! 0) ''content_type'' = Some (JStr ''table'')
      \<and> map fst (out ! 0)
          = [''content_type'', ''content'', ''tag_name'', ''attributes'', ''position'',
               ''table_info'']
      \<and> map_of (out ! 0) ''level'' = None
      \<and> map_of (out ! 0) ''list_type'' = None)"
proof -
  let ?t0 = "[(''content_type'', JStr ''table''), (''content'', JStr ''a|b''), (''tag_name'', JStr ''tr''),
       (''attributes'', JObj []), (''level'', JNull), (''list_type'', JNull),
       (''table_info'', JObj []), (''position'', JInt 0)]"
  let ?t1 = "[(''content_type'', JStr ''table''), (''content'', JStr ''c|d''), (''tag_name'', JStr ''tr''),
       (''attributes'', JObj []), (''level'', JNull), (''list_type'', JNull),
       (''table_info'', JObj []), (''position'', JInt 1)]"
  let ?p2 = "[(''content_type'', JStr ''paragraph''), (''content'', JStr ''x''), (''tag_name'', JStr ''p''),
       (''attributes'', JObj []), (''level'', JNull), (''list_type'', JNull),
       (''table_info'', JNull), (''position'', JInt 2)]"
  let ?ex = "[?t0, ?t1, ?p2]"
  have ok: "table_contents_ok ?ex"
    by (simp add: table_contents_ok_def is_table_def has_str_content_def dict_get_def)
  have runs: "table_runs ?ex = [[?t0, ?t1], [?p2]]"
    by (simp add: is_table_def dict_get_def)
  have two: "2 \<le> length (table_runs ?ex ! 0)"
    by (simp only: runs) simp
  have hd0: "hd (table_runs ?ex ! 0) = ?t0"
    by (simp only: runs) simp
  from merged_chunk_frame [OF ok]
  obtain out where o: "merge_consecutive_table_chunks ?ex = Inr out
     \<and> length out = length (table_runs ?ex)
     \<and> (\<forall>i. i < length out \<and> 2 \<le> length (table_runs ?ex ! i) \<longrightarrow>
          map_of (out ! i) ''tag_name''
            = Some (dict_get (hd (table_runs ?ex ! i)) ''tag_name'' (JStr []))
          \<and> map_of (out ! i) ''attributes''
            = Some (dict_get (hd (table_runs ?ex ! i)) ''attributes'' (JObj []))
          \<and> map_of (out ! i) ''position''
            = Some (dict_get (hd (table_runs ?ex ! i)) ''position'' (JInt 0))
          \<and> map_of (out ! i) ''content_type'' = Some (JStr ''table'')
          \<and> is_table (hd (table_runs ?ex ! i))
          \<and> map fst (out ! i)
            = [''content_type'', ''content'', ''tag_name'', ''attributes'', ''position'',
               ''table_info'']
          \<and> (\<exists>info. map_of (out ! i) ''table_info'' = Some (JObj info)
                \<and> map fst info = [''merged_chunks'', ''original_positions''])
          \<and> (\<forall>k. k \<notin> set [''content_type'', ''content'', ''tag_name'', ''attributes'', ''position'',
               ''table_info''] \<longrightarrow> map_of (out ! i) k = None))"
    ..
  note m = o [THEN conjunct1]
  note len = o [THEN conjunct2, THEN conjunct1]
  note all = o [THEN conjunct2, THEN conjunct2, THEN spec, THEN mp]
  have pre: "0 < length out \<and> 2 \<le> length (table_runs ?ex ! 0)"
    using two by (simp only: len runs) simp
  note f = all [OF pre, unfolded hd0]
  have g: "dict_get ?t0 ''tag_name'' (JStr []) = JStr ''tr''"
          "dict_get ?t0 ''attributes'' (JObj []) = JObj []"
          "dict_get ?t0 ''position'' (JInt 0) = JInt 0"
    by (simp_all add: dict_get_def)
  note d = f [THEN conjunct2, THEN conjunct2, THEN conjunct2, THEN conjunct2, THEN conjunct2,
    THEN conjunct2, THEN conjunct2]
  have lv: "map_of (out ! 0) ''level'' = None"
    using d [THEN spec, of "''level''"] by simp
  have lt: "map_of (out ! 0) ''list_type'' = None"
    using d [THEN spec, of "''list_type''"] by simp
  have rest: "map_of (out ! 0) ''tag_name'' = Some (JStr ''tr'')
      \<and> map_of (out ! 0) ''attributes'' = Some (JObj [])
      \<and> map_of (out ! 0) ''position'' = Some (JInt 0)
      \<and> map_of (out ! 0) ''content_type'' = Some (JStr ''table'')
      \<and> map fst (out ! 0)
          = [''content_type'', ''content'', ''tag_name'', ''attributes'', ''position'',
               ''table_info'']"
    using f by (simp only: g)
  from m rest lv lt have "\<exists>out. merge_consecutive_table_chunks ?ex = Inr out
      \<and> map_of (out ! 0) ''tag_name'' = Some (JStr ''tr'')
      \<and> map_of (out ! 0) ''attributes'' = Some (JObj [])
      \<and> map_of (out ! 0) ''position'' = Some (JInt 0)
      \<and> map_of (out ! 0) ''content_type'' = Some (JStr ''table'')
      \<and> map fst (out ! 0)
          = [''content_type'', ''content'', ''tag_name'', ''attributes'', ''position'',
               ''table_info'']
      \<and> map_of (out ! 0) ''level'' = None
      \<and> map_of (out ! 0) ''list_type'' = None"
    by (intro exI [of _ out]) (simp only: simp_thms)
  with ok two show ?thesis
    by (simp only: simp_thms)
qed

text \<open>
  C10 as stated fails: the first chunk of the run has \<open>level\<close> 3 and a \<open>list_type\<close>
  key, the merged chunk has neither key, so more than content and \<open>table_info\<close> differ.
\<close>

theorem merged_chunk_drops_keys_counterexample:
  "merge_consecutive_table_chunks
     [[(''content_type'', JStr ''table''), (''content'', JStr ''a''), (''tag_name'', JStr ''tr''),
       (''attributes'', JObj []), (''level'', JInt 3), (''list_type'', JNull),
       (''table_info'', JObj []), (''position'', JInt 0)],
      [(''content_type'', JStr ''table''), (''content'', JStr ''b''), (''tag_name'', JStr ''tr''),
       (''attributes'', JObj []), (''level'', JNull), (''list_type'', JNull),
       (''table_info'', JObj []), (''position'', JInt 1)]]
   = Inr
     [[(''content_type'', JStr ''table''), (''content'', JStr ''a | b''), (''tag_name'', JStr ''tr''),
       (''attributes'', JObj []), (''position'', JInt 0),
       (''table_info'', JObj [(''merged_chunks'', JInt 2),
          (''original_positions'', JArr [JInt 0, JInt 1])])]]
   \<and> map_of
      [(''content_type'', JStr ''table''), (''content'', JStr ''a''), (''tag_name'', JStr ''tr''),
       (''attributes'', JObj []), (''level'', JInt 3), (''list_type'', JNull),
       (''table_info'', JObj []), (''position'', JInt 0)] ''level'' = Some (JInt 3)
   \<and> map_of
      [(''content_type'', JStr ''table''), (''content'', JStr ''a | b''), (''tag_name'', JStr ''tr''),
       (''attributes'', JObj []), (''position'', JInt 0),
       (''table_info'', JObj [(''merged_chunks'', JInt 2),
          (''original_positions'', JArr [JInt 0, JInt 1])])] ''level'' = None
   \<and> map_of
      [(''content_type'', JStr ''table''), (''content'', JStr ''a''), (''tag_name'', JStr ''tr''),
       (''attributes'', JObj []), (''level'', JInt 3), (''list_type'', JNull),
       (''table_info'', JObj []), (''position'', JInt 0)] ''list_type'' = Some JNull
   \<and> map_of
      [(''content_type'', JStr ''table''), (''content'', JStr ''a | b''), (''tag_name'', JStr ''tr''),
       (''attributes'', JObj []), (''position'', JInt 0),
       (''table_info'', JObj [(''merged_chunks'', JInt 2),
          (''original_positions'', JArr [JInt 0, JInt 1])])] ''list_type'' = None"
  by (simp add: merge_consecutive_table_chunks_def is_table_def dict_get_def content_strip_def
        merged_chunk_def strip_def is_space_def)

subsection \<open>Filtering, token counting and record ids\<close>

lemma filter_loop_eq:
  "filter_loop chunks acc =
     (if list_all has_str_content chunks
      then Inr (acc @ filter (\<lambda>c. strip (content_text c) \<noteq> []) chunks)
      else Inl AttributeError)"
  by (induction chunks arbitrary: acc) (simp_all add: content_strip_eq)

text \<open>
  What the filter does: on chunks whose contents are strings it keeps exactly the chunks
  whose trimmed content is not empty, in order. The content type plays no part: the test
  for \<open>divider\<close> and \<open>image\<close> is reached with a non-empty content only, where the
  third disjunct holds anyway.
\<close>

lemma filter_empty_content_eq:
  "filter_empty_content chunks =
     (if list_all has_str_content chunks
      then Inr (filter (\<lambda>c. strip (content_text c) \<noteq> []) chunks)
      else Inl AttributeError)"
  by (simp add: filter_empty_content_def filter_loop_eq)

text \<open>
  C2. The filter is to keep a divider or an image whatever its content. The code does not:
  of a divider with empty content, an image with blank content and a paragraph, only the
  paragraph is left.
\<close>

theorem filter_removes_empty_divider:
  "filter_empty_content
    [[(''content_type'', JStr ''divider''), (''content'', JStr []), (''tag_name'', JStr ''hr''),
       (''attributes'', JObj []), (''level'', JNull), (''list_type'', JNull),
       (''table_info'', JNull), (''position'', JInt 0)],
     [(''content_type'', JStr ''image''), (''content'', JStr ''  ''), (''tag_name'', JStr ''img''),
       (''attributes'', JObj []), (''level'', JNull), (''list_type'', JNull),
       (''table_info'', JNull), (''position'', JInt 1)],
     [(''content_type'', JStr ''paragraph''), (''content'', JStr ''x''), (''tag_name'', JStr ''p''),
       (''attributes'', JObj []), (''level'', JNull), (''list_type'', JNull),
       (''table_info'', JNull), (''position'', JInt 2)]]
   = Inr
    [[(''content_type'', JStr ''paragraph''), (''content'', JStr ''x''), (''tag_name'', JStr ''p''),
       (''attributes'', JObj []), (''level'', JNull), (''list_type'', JNull),
       (''table_info'', JNull), (''position'', JInt 2)]]"
  by (simp add: filter_empty_content_def content_strip_def dict_get_def strip_def is_space_def)

lemma dropWhile_id: "\<forall>c\<in>set t. \<not> P c \<Longrightarrow> dropWhile P t = t"
  by (cases t) simp_all

lemma strip_no_space: "\<forall>c\<in>set t. \<not> is_space c \<Longrightarrow> strip t = t"
  by (simp add: strip_def dropWhile_id)

lemma strip_eq_Nil: "strip s = [] \<longleftrightarrow> (\<forall>c\<in>set s. is_space c)"
proof
  assume "strip s = []"
  then have "dropWhile is_space (rev (dropWhile is_space s)) = []"
    by (simp add: strip_def)
  then have a: "\<forall>c\<in>set (dropWhile is_space s). is_space c"
    by (simp add: dropWhile_eq_Nil_conv)
  have "dropWhile is_space s = []"
  proof (rule ccontr)
    assume ne: "dropWhile is_space s \<noteq> []"
    then have "\<not> is_space (hd (dropWhile is_space s))"
      by (rule hd_dropWhile)
    moreover from ne have "hd (dropWhile is_space s) \<in> set (dropWhile is_space s)"
      by simp
    ultimately show False using a by blast
  qed
  then show "\<forall>c\<in>set s. is_space c"
    by (simp add: dropWhile_eq_Nil_conv)
next
  assume "\<forall>c\<in>set s. is_space c"
  then have "dropWhile is_space s = []"
    by (simp add: dropWhile_eq_Nil_conv)
  then show "strip s = []"
    unfolding strip_def by (simp only: rev.simps dropWhile.simps)
qed

lemma split_scan_tokens:
  "t \<in> set (split_scan s cur) \<Longrightarrow> \<forall>c\<in>set cur. \<not> is_space c \<Longrightarrow>
     t \<noteq> [] \<and> (\<forall>c\<in>set t. \<not> is_space c)"
proof (induction s arbitrary: cur)
  case Nil
  then show ?case by (auto split: if_splits)
next
  case (Cons a s)
  show ?case
  proof (cases "is_space a")
    case True
    with Cons.prems have "t = cur \<and> cur \<noteq> [] \<or> t \<in> set (split_scan s [])"
      by (auto split: if_splits)
    then show ?thesis
    proof
      assume "t = cur \<and> cur \<noteq> []"
      with Cons.prems(2) show ?thesis by simp
    next
      assume "t \<in> set (split_scan s [])"
      from Cons.IH [OF this] show ?thesis by simp
    qed
  next
    case False
    with Cons.prems have "t \<in> set (split_scan s (cur @ [a]))" by simp
    moreover from False Cons.prems(2) have "\<forall>c\<in>set (cur @ [a]). \<not> is_space c" by simp
    ultimately show ?thesis by (rule Cons.IH)
  qed
qed

lemma py_split_token_strip:
  assumes "t \<in> set (py_split s)"
  shows "strip t \<noteq> []" and "t \<noteq> []"
proof -
  from assms have "t \<in> set (split_scan s [])" by (simp add: py_split_def)
  from split_scan_tokens [OF this] have ne: "t \<noteq> []" and ns: "\<forall>c\<in>set t. \<not> is_space c"
    by simp_all
  from ns have "strip t = t" by (rule strip_no_space)
  with ne show "strip t \<noteq> []" by simp
  from ne show "t \<noteq> []" .
qed

lemma tokens_filter_eq:
  "filter (\<lambda>token. strip token \<noteq> []) (py_split s) = filter (\<lambda>token. token \<noteq> []) (py_split s)"
  by (rule filter_cong) (auto dest: py_split_token_strip)

lemma not_space_lt: "\<not> is_space CHR ''<''"
  by (simp add: is_space_def)

lemma remove_tags_spaces: "\<forall>c\<in>set s. is_space c \<Longrightarrow> remove_tags s = s"
  by (induction s) (auto simp: not_space_lt)

lemma replace_punctuation_spaces: "\<forall>c\<in>set s. is_space c \<Longrightarrow> replace_punctuation s = s"
  by (induction s) (simp_all add: replace_punctuation_def)

lemma split_scan_spaces: "\<forall>c\<in>set s. is_space c \<Longrightarrow> split_scan s [] = []"
  by (induction s) simp_all

lemma word_not_space: "is_word c \<Longrightarrow> \<not> is_space c"
  by (auto simp: is_word_def is_space_def Let_def)

lemma count_runs_skip: "\<not> P c \<Longrightarrow> count_runs P (c # s) = count_runs P s"
  by (cases s) simp_all

lemma count_runs_run:
  "\<forall>x\<in>set cur. P x \<Longrightarrow> \<not> P c \<Longrightarrow>
     count_runs P (cur @ c # s) = (if cur = [] then 0 else 1) + count_runs P s"
  by (induction cur rule: induct_list012) (simp_all add: count_runs_skip)

lemma count_runs_all:
  "\<forall>x\<in>set cur. P x \<Longrightarrow> count_runs P cur = (if cur = [] then 0 else 1)"
  by (induction cur rule: induct_list012) simp_all

lemma split_scan_count:
  "\<forall>x\<in>set cur. \<not> is_space x \<Longrightarrow>
     length (split_scan t cur) = count_runs (\<lambda>c. \<not> is_space c) (cur @ t)"
proof (induction t arbitrary: cur)
  case Nil
  then show ?case by (simp add: count_runs_all)
next
  case (Cons c t)
  show ?case
  proof (cases "is_space c")
    case True
    have "length (split_scan t []) = count_runs (\<lambda>c. \<not> is_space c) ([] @ t)"
      by (rule Cons.IH) simp
    with True Cons.prems show ?thesis
      by (simp add: count_runs_run)
  next
    case False
    with Cons.prems have "\<forall>x\<in>set (cur @ [c]). \<not> is_space x" by simp
    from Cons.IH [OF this] False show ?thesis by simp
  qed
qed

lemma count_runs_map: "count_runs P (map f s) = count_runs (\<lambda>c. P (f c)) s"
  by (induction s rule: induct_list012) simp_all

lemma replaced_not_space:
  "(\<not> is_space (if is_word c \<or> is_space c then c else CHR '' '')) = is_word c"
  using word_not_space [of c] by (auto simp: is_space_def)

lemma tokens_are_word_runs:
  "length (py_split (replace_punctuation s)) = count_runs is_word s"
proof -
  have "length (split_scan (replace_punctuation s) [])
          = count_runs (\<lambda>c. \<not> is_space c) ([] @ replace_punctuation s)"
    by (rule split_scan_count) simp
  then show ?thesis
    by (simp add: py_split_def replace_punctuation_def count_runs_map replaced_not_space)
qed

lemma py_split_nonempty: "filter (\<lambda>token. token \<noteq> []) (py_split s) = py_split s"
  by (rule filter_True) (auto dest: py_split_token_strip)

lemma takeWhile_until:
  "a \<notin> set b \<Longrightarrow> takeWhile (\<lambda>x. x \<noteq> a) (b @ a # rest) = b"
  by (induction b) auto

lemma dropWhile_until:
  "a \<notin> set b \<Longrightarrow> dropWhile (\<lambda>x. x \<noteq> a) (b @ a # rest) = a # rest"
  by (induction b) auto

lemma remove_tags_tag:
  assumes "is_tag w"
  shows "remove_tags (w @ rest) = remove_tags rest"
proof -
  from assms obtain r where w: "w = CHR ''<'' # r" and r: "r \<noteq> []" "last r = CHR ''>''"
    "butlast r \<noteq> []" "CHR ''>'' \<notin> set (butlast r)"
    by (auto simp: is_tag_def split: list.splits)
  let ?b = "butlast r"
  from r have rr: "r = ?b @ [CHR ''>'']"
    by (metis append_butlast_last_id)
  have tw: "takeWhile (\<lambda>x. x \<noteq> CHR ''>'') (?b @ CHR ''>'' # rest) = ?b"
    using r(4) by (rule takeWhile_until)
  have dw: "dropWhile (\<lambda>x. x \<noteq> CHR ''>'') (?b @ CHR ''>'' # rest) = CHR ''>'' # rest"
    using r(4) by (rule dropWhile_until)
  have "w @ rest = CHR ''<'' # (?b @ CHR ''>'' # rest)"
    using w rr by (metis append_Cons append_Nil append_assoc)
  then show ?thesis
    using tw dw r(3) by (simp del: takeWhile_append2 dropWhile_append2 takeWhile_append1 dropWhile_append1 dropWhile_append3)
qed

lemma remove_tags_no_tag:
  assumes "\<forall>n. \<not> is_tag (take n (c # cs))"
  shows "remove_tags (c # cs) = c # remove_tags cs"
proof (rule ccontr)
  assume ne: "remove_tags (c # cs) \<noteq> c # remove_tags cs"
  let ?b = "takeWhile (\<lambda>x. x \<noteq> CHR ''>'') cs"
  let ?d = "dropWhile (\<lambda>x. x \<noteq> CHR ''>'') cs"
  from ne have c: "c = CHR ''<''" and b: "?b \<noteq> []" and d: "?d \<noteq> []"
    by (auto split: if_splits)
  from d have "hd ?d = CHR ''>''"
    using hd_dropWhile [of "\<lambda>x. x \<noteq> CHR ''>''" cs] by simp
  with d obtain rest where dd: "?d = CHR ''>'' # rest"
    by (cases ?d) auto
  have cs: "cs = ?b @ CHR ''>'' # rest"
    using takeWhile_dropWhile_id [of "\<lambda>x. x \<noteq> CHR ''>''" cs] dd by simp
  have nb: "CHR ''>'' \<notin> set ?b"
    by (auto dest: set_takeWhileD)
  have "take (Suc (Suc (length ?b))) (c # cs) = CHR ''<'' # ?b @ [CHR ''>'']"
    by (subst cs) (simp add: c)
  moreover have "is_tag (CHR ''<'' # ?b @ [CHR ''>''])"
    using b nb by (simp add: is_tag_def)
  ultimately show False using assms by metis
qed

text \<open>
  C8. The token count is a function of the text alone, computed as the claim says: the
  number of non-empty tokens that splitting on whitespace gives, after the tags are removed
  and the punctuation is replaced by spaces; the early return agrees with it. Each stage is
  pinned by what it is to do. Removing the tags deletes a tag (\<open>is_tag\<close>) where one
  starts and goes on behind it, and keeps a character at which no tag starts. Replacing
  every character that is neither a word character nor whitespace by a space and splitting
  on whitespace leaves one token for each maximal run of word characters, so the count is
  the number of maximal runs of word characters of the text without its tags. On an empty
  or whitespace-only string the count is 0.
\<close>

theorem count_tokens_pipeline:
  "count_tokens text
     = int (length (filter (\<lambda>token. token \<noteq> [])
                      (py_split (replace_punctuation (remove_tags text)))))
   \<and> count_tokens text = int (count_runs is_word (remove_tags text))
   \<and> (is_tag w \<longrightarrow> remove_tags (w @ rest) = remove_tags rest)
   \<and> ((\<forall>n. \<not> is_tag (take n (c # cs))) \<longrightarrow> remove_tags (c # cs) = c # remove_tags cs)
   \<and> ((\<forall>c\<in>set text. is_space c) \<longrightarrow> count_tokens text = 0)"
proof (intro conjI impI)
  show p: "count_tokens text
     = int (length (filter (\<lambda>token. token \<noteq> [])
                      (py_split (replace_punctuation (remove_tags text)))))"
  proof (cases "\<forall>c\<in>set text. is_space c")
    case True
    then have "strip text = []" by (simp add: strip_eq_Nil)
    moreover from True have "py_split (replace_punctuation (remove_tags text)) = []"
      by (simp add: remove_tags_spaces replace_punctuation_spaces split_scan_spaces py_split_def)
    ultimately show ?thesis by (simp add: count_tokens_def)
  next
    case False
    then have "strip text \<noteq> []" "text \<noteq> []"
      by (auto simp: strip_eq_Nil)
    then show ?thesis
      by (simp add: count_tokens_def tokens_filter_eq)
  qed
  show "count_tokens text = int (count_runs is_word (remove_tags text))"
    unfolding p by (simp only: py_split_nonempty tokens_are_word_runs)
  show "(\<forall>c\<in>set text. is_space c) \<Longrightarrow> count_tokens text = 0"
    by (simp add: count_tokens_def strip_eq_Nil)
  show "is_tag w \<Longrightarrow> remove_tags (w @ rest) = remove_tags rest"
    by (rule remove_tags_tag)
  show "\<forall>n. \<not> is_tag (take n (c # cs)) \<Longrightarrow> remove_tags (c # cs) = c # remove_tags cs"
    by (rule remove_tags_no_tag)
qed


text \<open>
  Two spaces count 0; a tagged, punctuated phrase of two words counts 2, the number of its
  runs of word characters; a tag at the head is removed, a character that starts no tag is
  kept.
\<close>

theorem count_tokens_pipeline_witness:
  "list_all is_space ''  ''
   \<and> count_tokens ''  '' = 0
   \<and> count_tokens ''<b>Hello</b>, world! '' = 2
   \<and> count_runs is_word ''Hello, world! '' = 2
   \<and> is_tag ''<b>''
   \<and> remove_tags (''<b>'' @ ''Hello'') = remove_tags ''Hello''
   \<and> (\<forall>n. \<not> is_tag (take n ''a<b''))
   \<and> remove_tags ''a<b'' = CHR ''a'' # remove_tags ''<b''"
proof -
  have h: "\<forall>c\<in>set ''  ''. is_space c"
    by (simp add: is_space_def)
  have a: "count_tokens ''  '' = 0"
    using count_tokens_pipeline [of "''  ''", THEN conjunct2, THEN conjunct2, THEN conjunct2,
      THEN conjunct2, THEN mp, OF h] .
  have rt: "remove_tags ''<b>Hello</b>, world! '' = ''Hello, world! ''"
    by simp
  have cr: "count_runs is_word ''Hello, world! '' = 2"
    by (simp add: is_word_def)
  have b: "count_tokens ''<b>Hello</b>, world! '' = 2"
    using count_tokens_pipeline [of "''<b>Hello</b>, world! ''", THEN conjunct2, THEN conjunct1]
    by (simp only: rt cr of_nat_numeral)
  have t: "is_tag ''<b>''"
    by (simp add: is_tag_def)
  have c: "remove_tags (''<b>'' @ ''Hello'') = remove_tags ''Hello''"
    using count_tokens_pipeline [of "[]" "''<b>''" "''Hello''", THEN conjunct2, THEN conjunct2,
      THEN conjunct1, THEN mp, OF t] .
  have nt: "\<forall>n. \<not> is_tag (take n ''a<b'')"
  proof
    fix n
    show "\<not> is_tag (take n ''a<b'')"
      by (cases n) (simp_all add: is_tag_def)
  qed
  have d: "remove_tags ''a<b'' = CHR ''a'' # remove_tags ''<b''"
    using count_tokens_pipeline [of "[]" "[]" "[]" "CHR ''a''" "''<b''", THEN conjunct2,
      THEN conjunct2, THEN conjunct2, THEN conjunct1, THEN mp, OF nt] .
  have la: "list_all is_space ''  ''"
    using h by (simp add: list_all_iff)
  from la a b cr t c nt d show ?thesis
    by (simp only: simp_thms)
qed

lemma convert_id:
  "convert_chunk_to_database_format py_str c meta k = Inr r \<Longrightarrow> map_of r ''id'' = Some (JInt k)"
  by (auto simp: convert_chunk_to_database_format_def Let_def split: sum.splits option.splits if_splits)

lemma convert_ok_iff:
  "(\<exists>r. convert_chunk_to_database_format py_str c meta k = Inr r) = converts py_str meta c"
  by (auto simp: converts_def convert_chunk_to_database_format_def Let_def
        split: sum.splits option.splits if_splits)

lemma convert_loop_ids:
  "record_ids (convert_loop py_str chunks meta (int k) db)
     = record_ids db
       @ map (\<lambda>i. Some (JInt (int i))) [k ..< k + length (filter (converts py_str meta) chunks)]"
proof (induction chunks arbitrary: k db)
  case Nil
  show ?case by simp
next
  case (Cons c chunks)
  show ?case
  proof (cases "convert_chunk_to_database_format py_str c meta (int k)")
    case (Inl e)
    then have "\<not> converts py_str meta c"
      using convert_ok_iff [of py_str c meta "int k"] by simp
    with Inl Cons.IH [of k db] show ?thesis by simp
  next
    case (Inr r)
    then have cv: "converts py_str meta c"
      using convert_ok_iff [of py_str c meta "int k"] by auto
    from Inr have id: "map_of r ''id'' = Some (JInt (int k))"
      by (rule convert_id)
    have "record_ids (convert_loop py_str (c # chunks) meta (int k) db)
            = record_ids (convert_loop py_str chunks meta (int (Suc k)) (db @ [r]))"
      using Inr by (simp add: add.commute)
    also have "\<dots> = record_ids (db @ [r])
       @ map (\<lambda>i. Some (JInt (int i))) [Suc k ..< Suc k + length (filter (converts py_str meta) chunks)]"
      by (rule Cons.IH)
    also have "\<dots> = record_ids db
       @ map (\<lambda>i. Some (JInt (int i))) [k ..< k + length (filter (converts py_str meta) (c # chunks))]"
    proof -
      have u: "[k ..< Suc (k + n)] = k # [Suc k ..< Suc (k + n)]" for n
        by (simp add: upt_conv_Cons del: upt_Suc)
      show ?thesis
        using cv id by (simp add: record_ids_def u del: upt_Suc)
    qed
    finally show ?thesis .
  qed
qed

lemma convert_loop_length:
  "length (convert_loop py_str chunks meta k db)
     = length db + length (filter (converts py_str meta) chunks)"
proof (induction chunks arbitrary: k db)
  case Nil
  show ?case by simp
next
  case (Cons c chunks)
  show ?case
  proof (cases "convert_chunk_to_database_format py_str c meta k")
    case (Inl e)
    then have "\<not> converts py_str meta c"
      using convert_ok_iff [of py_str c meta k] by simp
    with Inl Cons.IH show ?thesis by simp
  next
    case (Inr r)
    then have "converts py_str meta c"
      using convert_ok_iff [of py_str c meta k] by auto
    with Inr Cons.IH show ?thesis by simp
  qed
qed

text \<open>
  C9. The records of the conversion loop, started at id 1, carry the ids 1, 2, ..., n in
  output order, where n, the number of records, is the number of chunks that convert; so
  do the records of the whole conversion (filter, merge, loop) whenever it returns. The
  ids come from the counter only, not from the chunks.
\<close>

theorem record_ids_sequential:
  "record_ids (convert_loop py_str chunks paper_metadata 1 [])
     = map (\<lambda>i. Some (JInt (int i))) [1 ..< Suc (length (filter (converts py_str paper_metadata) chunks))]
   \<and> length (convert_loop py_str chunks paper_metadata 1 [])
     = length (filter (converts py_str paper_metadata) chunks)
   \<and> (convert_chunks py_str include_empty merge_tables paper_metadata chunks = Inr records \<longrightarrow>
        record_ids records = map (\<lambda>i. Some (JInt (int i))) [1 ..< Suc (length records)])"
proof (intro conjI impI)
  have l: "record_ids (convert_loop py_str cs paper_metadata 1 [])
     = map (\<lambda>i. Some (JInt (int i))) [1 ..< Suc (length (filter (converts py_str paper_metadata) cs))]"
    for cs
    using convert_loop_ids [of py_str cs paper_metadata 1 "[]"] by (simp add: record_ids_def)
  show "record_ids (convert_loop py_str chunks paper_metadata 1 [])
     = map (\<lambda>i. Some (JInt (int i))) [1 ..< Suc (length (filter (converts py_str paper_metadata) chunks))]"
    by (rule l)
  show "length (convert_loop py_str chunks paper_metadata 1 [])
     = length (filter (converts py_str paper_metadata) chunks)"
    by (simp add: convert_loop_length)
  assume "convert_chunks py_str include_empty merge_tables paper_metadata chunks = Inr records"
  then obtain cs where "records = convert_loop py_str cs paper_metadata 1 []"
    by (auto simp: convert_chunks_def split: sum.splits if_splits)
  then show "record_ids records = map (\<lambda>i. Some (JInt (int i))) [1 ..< Suc (length records)]"
    using l [of cs] by (simp add: convert_loop_length)
qed

text \<open>
  Chunks at positions 7, 9 and 12, the second of which fails to convert (its attributes
  are \<open>null\<close>): the records have ids 1 and 2 and keep the positions 7 and 12 in their
  metadata.
\<close>

theorem record_ids_sequential_witness:
  "convert_chunks (\<lambda>v. []) False True [(''title'', JStr ''Title'')]
    [[(''content_type'', JStr ''heading''), (''content'', JStr ''Title''), (''tag_name'', JStr ''h1''),
       (''attributes'', JObj []), (''level'', JInt 1), (''list_type'', JNull),
       (''table_info'', JNull), (''position'', JInt 7)],
     [(''content_type'', JStr ''paragraph''), (''content'', JStr ''x''), (''tag_name'', JStr ''p''),
       (''attributes'', JNull), (''level'', JNull), (''list_type'', JNull),
       (''table_info'', JNull), (''position'', JInt 9)],
     [(''content_type'', JStr ''paragraph''), (''content'', JStr ''some text''), (''tag_name'', JStr ''p''),
       (''attributes'', JObj []), (''level'', JNull), (''list_type'', JNull),
       (''table_info'', JNull), (''position'', JInt 12)]]
   = Inr
    [[(''id'', JInt 1), (''content'', JStr ''Title''),
       (''metadata'', JObj [(''name'', JStr ''Title''), (''type'', JStr ''header''),
          (''html_class'', JStr []), (''token_count'', JInt 1), (''tag_name'', JStr ''h1''),
          (''position'', JInt 7), (''level'', JInt 1)])],
     [(''id'', JInt 2), (''content'', JStr ''some text''),
       (''metadata'', JObj [(''name'', JStr ''Title''), (''type'', JStr ''paragraph''),
          (''html_class'', JStr []), (''token_count'', JInt 2), (''tag_name'', JStr ''p''),
          (''position'', JInt 12)])]]
   \<and> record_ids
    [[(''id'', JInt 1), (''content'', JStr ''Title''),
       (''metadata'', JObj [(''name'', JStr ''Title''), (''type'', JStr ''header''),
          (''html_class'', JStr []), (''token_count'', JInt 1), (''tag_name'', JStr ''h1''),
          (''position'', JInt 7), (''level'', JInt 1)])],
     [(''id'', JInt 2), (''content'', JStr ''some text''),
       (''metadata'', JObj [(''name'', JStr ''Title''), (''type'', JStr ''paragraph''),
          (''html_class'', JStr []), (''token_count'', JInt 2), (''tag_name'', JStr ''p''),
          (''position'', JInt 12)])]]
   = [Some (JInt 1), Some (JInt 2)]"
proof -
  let ?c0 = "[(''content_type'', JStr ''heading''), (''content'', JStr ''Title''), (''tag_name'', JStr ''h1''),
       (''attributes'', JObj []), (''level'', JInt 1), (''list_type'', JNull),
       (''table_info'', JNull), (''position'', JInt 7)]"
  let ?c1 = "[(''content_type'', JStr ''paragraph''), (''content'', JStr ''x''), (''tag_name'', JStr ''p''),
       (''attributes'', JNull), (''level'', JNull), (''list_type'', JNull),
       (''table_info'', JNull), (''position'', JInt 9)]"
  let ?c2 = "[(''content_type'', JStr ''paragraph''), (''content'', JStr ''some text''), (''tag_name'', JStr ''p''),
       (''attributes'', JObj []), (''level'', JNull), (''list_type'', JNull),
       (''table_info'', JNull), (''position'', JInt 12)]"
  let ?ex = "[?c0, ?c1, ?c2]"
  let ?meta = "[(''title'', JStr ''Title'')]"
  let ?recs = "[[(''id'', JInt 1), (''content'', JStr ''Title''),
       (''metadata'', JObj [(''name'', JStr ''Title''), (''type'', JStr ''header''),
          (''html_class'', JStr []), (''token_count'', JInt 1), (''tag_name'', JStr ''h1''),
          (''position'', JInt 7), (''level'', JInt 1)])],
     [(''id'', JInt 2), (''content'', JStr ''some text''),
       (''metadata'', JObj [(''name'', JStr ''Title''), (''type'', JStr ''paragraph''),
          (''html_class'', JStr []), (''token_count'', JInt 2), (''tag_name'', JStr ''p''),
          (''position'', JInt 12)])]]"
  have f: "filter_empty_content ?ex = Inr ?ex"
    by (simp add: filter_empty_content_def content_strip_def dict_get_def strip_def is_space_def)
  have m: "merge_consecutive_table_chunks ?ex = Inr ?ex"
    by (simp add: merge_consecutive_table_chunks_def is_table_def dict_get_def)
  have t: "count_tokens ''Title'' = 1" "count_tokens ''some text'' = 2" "count_tokens ''x'' = 1"
    by (simp_all add: count_tokens_def strip_def is_space_def is_word_def replace_punctuation_def
          py_split_def)
  have s: "strip ''Title'' = ''Title''" "strip ''some text'' = ''some text''" "strip ''x'' = ''x''"
    by (simp_all add: strip_def is_space_def)
  have k0: "convert_chunk_to_database_format (\<lambda>v. []) ?c0 ?meta 1 = Inr (?recs ! 0)"
    by (simp add: convert_chunk_to_database_format_def content_strip_def dict_get_def s t
          html_class_of_def type_mapping_def)
  have k1: "convert_chunk_to_database_format (\<lambda>v. []) ?c1 ?meta 2 = Inl AttributeError"
    by (simp add: convert_chunk_to_database_format_def content_strip_def dict_get_def s t
          html_class_of_def type_mapping_def)
  have k2: "convert_chunk_to_database_format (\<lambda>v. []) ?c2 ?meta 2 = Inr (?recs ! 1)"
    by (simp add: convert_chunk_to_database_format_def content_strip_def dict_get_def s t
          html_class_of_def type_mapping_def)
  have l: "convert_loop (\<lambda>v. []) ?ex ?meta 1 [] = ?recs"
    by (simp add: k0 k1 k2)
  have c: "convert_chunks (\<lambda>v. []) False True ?meta ?ex = Inr ?recs"
    by (simp only: convert_chunks_def f m l sum.case if_True if_False not_False_eq_True simp_thms)
  have "record_ids ?recs = map (\<lambda>i. Some (JInt (int i))) [1 ..< Suc (length ?recs)]"
    using record_ids_sequential [of "\<lambda>v. []" ?ex ?meta False True ?recs,
      THEN conjunct2, THEN conjunct2, THEN mp, OF c] .
  then have "record_ids ?recs = [Some (JInt 1), Some (JInt 2)]"
    by (simp add: upt_rec)
  with c show ?thesis
    by (simp only: simp_thms)
qed

subsection \<open>The classifier\<close>

text \<open>
  Where \<open>_process_heading\<close> is called, the element's name has two characters and the
  second is a digit from 1 to 6, so \<open>int(element.name[1])\<close> does not raise.
\<close>

lemma lower_char_digit:
  assumes "lower_char c = d" and "48 \<le> (of_char d :: nat)" and "(of_char d :: nat) \<le> 57"
  shows "c = d"
proof (rule ccontr)
  assume ne: "c \<noteq> d"
  let ?n = "of_char c :: nat"
  from ne assms(1) have up: "(65 \<le> ?n \<and> ?n \<le> 90) \<or> (192 \<le> ?n \<and> ?n \<le> 222 \<and> ?n \<noteq> 215)"
    and d: "d = char_of (?n + 32)"
    by (auto simp: lower_char_def Let_def split: if_splits)
  from up have "?n + 32 < 256" by auto
  then have "(of_char (char_of (?n + 32) :: char) :: nat) = ?n + 32"
    by (simp add: of_char_of)
  with d up assms(2,3) show False by auto
qed

lemma heading_level_range:
  assumes "lower name \<in> set heading_tags"
  shows "length name = 2 \<and> 1 \<le> heading_level name \<and> heading_level name \<le> 6"
proof -
  from assms obtain d where l: "lower name = [CHR ''h'', d]"
    and d: "d \<in> set ''123456''"
    by (auto simp: heading_tags_def)
  from l obtain c0 c1 where n: "name = [c0, c1]" and c1: "lower_char c1 = d"
    by (auto simp: lower_def map_eq_Cons_conv)
  from d have r: "48 \<le> (of_char d :: nat)" "(of_char d :: nat) \<le> 57"
    by auto
  from lower_char_digit [OF c1 r] have "c1 = d" .
  with n d show ?thesis
    by (auto simp: heading_level_def)
qed

lemmas process_defs =
  process_heading_def process_paragraph_def process_list_def process_table_def
  process_divider_def process_image_def process_code_def process_quote_def process_form_def
  process_navigation_def process_footer_def process_header_def process_structural_def
  process_unknown_def

lemma process_element_position:
  "process_element py_str bullet e pos = Some c \<Longrightarrow> position c = Some pos"
  by (auto simp: process_element_def process_defs Let_def split: if_splits)

lemma process_element_None:
  "(process_element py_str bullet e pos = None) = (\<not> emits py_str bullet e)"
  by (simp add: emits_def process_element_def process_defs Let_def)

lemma parse_loop_positions:
  "map position (parse_loop py_str bullet es k acc)
     = map position acc
       @ map (\<lambda>i. Some (k + int i)) [0 ..< length (filter (emits py_str bullet) es)]"
proof (induction es arbitrary: k acc)
  case Nil
  show ?case by simp
next
  case (Cons e es)
  show ?case
  proof (cases "process_element py_str bullet e k")
    case None
    then have "\<not> emits py_str bullet e"
      by (simp add: process_element_None)
    with None Cons.IH [of k acc] show ?thesis by simp
  next
    case (Some c)
    then have em: "emits py_str bullet e"
      using process_element_None [of py_str bullet e k] by simp
    from Some have pc: "position c = Some k"
      by (rule process_element_position)
    have "map position (parse_loop py_str bullet (e # es) k acc)
            = map position (parse_loop py_str bullet es (k + 1) (acc @ [c]))"
      using Some by simp
    also have "\<dots> = map position (acc @ [c])
        @ map (\<lambda>i. Some (k + 1 + int i)) [0 ..< length (filter (emits py_str bullet) es)]"
      by (rule Cons.IH)
    also have "\<dots> = map position acc
        @ map (\<lambda>i. Some (k + int i)) [0 ..< length (filter (emits py_str bullet) (e # es))]"
      using em pc by (simp add: map_upt_Suc add.commute add.left_commute del: upt_Suc)
    finally show ?thesis .
  qed
qed

lemma parse_loop_length:
  "length (parse_loop py_str bullet es k acc)
     = length acc + length (filter (emits py_str bullet) es)"
proof (induction es arbitrary: k acc)
  case Nil
  show ?case by simp
next
  case (Cons e es)
  show ?case
  proof (cases "process_element py_str bullet e k")
    case None
    then have "\<not> emits py_str bullet e"
      by (simp add: process_element_None)
    with None Cons.IH show ?thesis by simp
  next
    case (Some c)
    then have "emits py_str bullet e"
      using process_element_None [of py_str bullet e k] by simp
    with Some Cons.IH show ?thesis by simp
  qed
qed

text \<open>
  C3. Whatever the parser makes of the HTML string, the \<open>i\<close>-th chunk that
  \<open>parse_html\<close> returns has position \<open>i\<close>: the positions are 0, 1, ..., n-1 in
  output order. The number of chunks is the number of visited elements that yield a chunk,
  so an element that yields none does not advance the counter.
\<close>

theorem positions_sequential:
  "map position (parse_html soup py_str bullet html_string)
     = map (\<lambda>i. Some (int i)) [0 ..< length (parse_html soup py_str bullet html_string)]
   \<and> length (parse_html soup py_str bullet html_string)
     = length (filter (emits py_str bullet) (find_all_True (soup (clean_html_string html_string))))"
  using parse_loop_positions [of py_str bullet "find_all_True (soup (clean_html_string html_string))" 0 "[]"]
  by (simp add: parse_html_def parse_loop_length)

lemma lower_ascii:
  "lower ''div'' = ''div''" "lower ''h1'' = ''h1''" "lower ''hr'' = ''hr''" "lower ''p'' = ''p''"
  "lower ''br'' = ''br''"
  by (simp_all add: lower_def lower_char_def)

text \<open>
  Four elements are visited, the \<open>div\<close> yields no chunk, and the three chunks have the
  positions 0, 1, 2.
\<close>

theorem positions_sequential_witness:
  "length (find_all_True
      [Tag ''div'' [] [Tag ''h1'' [] [NavigableString ''T''], Tag ''hr'' [] [],
        Tag ''p'' [] [NavigableString ''x'']]]) = 4
   \<and> map position (parse_html
      (\<lambda>s. [Tag ''div'' [] [Tag ''h1'' [] [NavigableString ''T''], Tag ''hr'' [] [],
        Tag ''p'' [] [NavigableString ''x'']]])
      (\<lambda>v. []) [] ''<div><h1>T</h1><hr/><p>x</p></div>'')
     = [Some 0, Some 1, Some 2]"
proof -
  let ?dom = "[Tag ''div'' [] [Tag ''h1'' [] [NavigableString ''T''], Tag ''hr'' [] [],
        Tag ''p'' [] [NavigableString ''x'']]]"
  let ?html = "''<div><h1>T</h1><hr/><p>x</p></div>''"
  let ?out = "parse_html (\<lambda>s. ?dom) (\<lambda>v. []) [] ?html"
  have v: "find_all_True ?dom
     = [(''div'', [], [Tag ''h1'' [] [NavigableString ''T''], Tag ''hr'' [] [],
                      Tag ''p'' [] [NavigableString ''x'']]),
        (''h1'', [], [NavigableString ''T'']), (''hr'', [], []), (''p'', [], [NavigableString ''x''])]"
    by simp
  have e: "\<not> emits (\<lambda>v. []) [] (''div'', [], [Tag ''h1'' [] [NavigableString ''T''], Tag ''hr'' [] [],
                      Tag ''p'' [] [NavigableString ''x'']])"
    "emits (\<lambda>v. []) [] (''h1'', [], [NavigableString ''T''])"
    "emits (\<lambda>v. []) [] (''hr'', [], [])"
    "emits (\<lambda>v. []) [] (''p'', [], [NavigableString ''x''])"
    by (simp_all add: emits_def process_element_def lower_ascii ignore_tags_def heading_tags_def
          paragraph_tags_def list_tags_def table_tags_def divider_tags_def)
  have n: "length ?out = 3"
    using positions_sequential [of "\<lambda>s. ?dom" "\<lambda>v. []" "[]" ?html, THEN conjunct2]
    by (simp only: v) (simp add: e)
  have "map position ?out = map (\<lambda>i. Some (int i)) [0 ..< length ?out]"
    using positions_sequential [of "\<lambda>s. ?dom" "\<lambda>v. []" "[]" ?html, THEN conjunct1] .
  then have "map position ?out = [Some 0, Some 1, Some 2]"
    by (simp only: n) (simp add: upt_rec)
  moreover have "length (find_all_True ?dom) = 4"
    by (simp only: v) simp
  ultimately show ?thesis
    by (simp only: simp_thms)
qed

lemma str_join_append:
  "str_join sep (xs @ ys) =
     (if xs = [] then str_join sep ys
      else if ys = [] then str_join sep xs
      else str_join sep xs @ sep @ str_join sep ys)"
proof (induction xs rule: induct_list012)
  case 1
  show ?case by simp
next
  case (2 x)
  show ?case by (cases ys) simp_all
next
  case (3 x y zs)
  then show ?case by simp
qed

lemma str_join_eq_Nil:
  "\<forall>t\<in>set ys. t \<noteq> [] \<Longrightarrow> str_join sep ys = [] \<longleftrightarrow> ys = []"
  by (induction ys rule: induct_list012) simp_all

lemma str_join_flatten:
  assumes "ys \<noteq> []"
  shows "str_join sep (xs @ str_join sep ys # zs) = str_join sep (xs @ ys @ zs)"
proof -
  have a: "str_join sep (str_join sep ys # zs) = str_join sep (ys @ zs)"
    using assms by (cases zs) (simp_all add: str_join_append)
  show ?thesis
    using assms a by (simp add: str_join_append [of sep xs])
qed

lemma text_pieces_nonempty: "\<forall>t\<in>set (text_pieces cs). t \<noteq> []"
  by (simp add: text_pieces_def)

lemma text_pieces_simps:
  "text_pieces [] = []"
  "text_pieces (NavigableString s # rest)
     = (if strip s \<noteq> [] then strip s # text_pieces rest else text_pieces rest)"
  "text_pieces (Tag name attrs contents # rest)
     = (if name \<in> set ignore_tags then text_pieces contents else []) @ text_pieces rest"
  by (simp_all add: text_pieces_def)

lemma extract_text_eq:
  "extract_text_content nd
     = (case nd of NavigableString s \<Rightarrow> strip s
        | Tag name attrs contents \<Rightarrow> str_join '' '' (text_pieces contents))"
  and "\<forall>pre. str_join '' '' (pre @ text_parts cs) = str_join '' '' (pre @ text_pieces cs)"
proof (induction nd and cs rule: extract_text_content_text_parts.induct)
  case (1 s)
  show ?case by simp
next
  case (2 name attrs contents)
  then have "str_join '' '' ([] @ text_parts contents) = str_join '' '' ([] @ text_pieces contents)"
    by blast
  then show ?case by simp
next
  case 3
  show ?case by (simp add: text_pieces_simps)
next
  case (4 s rest)
  show ?case
  proof (cases "strip s = []")
    case True
    with 4 show ?thesis by (simp add: text_pieces_simps)
  next
    case False
    show ?thesis
    proof
      fix pre
      from 4 False
      have "str_join '' '' ((pre @ [strip s]) @ text_parts rest)
              = str_join '' '' ((pre @ [strip s]) @ text_pieces rest)"
        by blast
      with False show "str_join '' '' (pre @ text_parts (NavigableString s # rest))
              = str_join '' '' (pre @ text_pieces (NavigableString s # rest))"
        by (simp add: text_pieces_simps)
    qed
  qed
next
  case (5 name attrs contents rest)
  show ?case
  proof (cases "name \<in> set ignore_tags")
    case False
    with 5 show ?thesis by (simp add: text_pieces_simps)
  next
    case True
    note ign = True
    from 5(1) [OF ign]
    have ex: "extract_text_content (Tag name attrs contents) = str_join '' '' (text_pieces contents)"
      by simp
    show ?thesis
    proof (cases "text_pieces contents = []")
      case True
      with ex have e: "extract_text_content (Tag name attrs contents) = []" by simp
      from 5(3) [OF ign refl] e
      have "\<forall>pre. str_join '' '' (pre @ text_parts rest) = str_join '' '' (pre @ text_pieces rest)"
        by simp
      with ign e True show ?thesis
        by (simp add: text_pieces_simps del: extract_text_content.simps)
    next
      case False
      with ex text_pieces_nonempty [of contents]
      have ne: "extract_text_content (Tag name attrs contents) \<noteq> []"
        by (simp add: str_join_eq_Nil)
      show ?thesis
      proof
        fix pre
        let ?t = "extract_text_content (Tag name attrs contents)"
        from 5(2) [OF ign refl ne]
        have "str_join '' '' ((pre @ [?t]) @ text_parts rest)
                = str_join '' '' ((pre @ [?t]) @ text_pieces rest)"
          by blast
        then have "str_join '' '' (pre @ ?t # text_parts rest)
                = str_join '' '' (pre @ str_join '' '' (text_pieces contents) # text_pieces rest)"
          by (simp add: ex del: extract_text_content.simps)
        also have "\<dots> = str_join '' '' (pre @ text_pieces contents @ text_pieces rest)"
          using False by (rule str_join_flatten)
        finally show "str_join '' '' (pre @ text_parts (Tag name attrs contents # rest))
                = str_join '' '' (pre @ text_pieces (Tag name attrs contents # rest))"
          using ign ne by (simp add: text_pieces_simps del: extract_text_content.simps)
      qed
    qed
  qed
qed

text \<open>
  C5 (amended). The extracted content of an element is the single-space join, in document
  order, of the trimmed non-empty text nodes that are children of the element or lie
  below it through elements with ignored tags only: an ignored container is passed
  through and the text inside it is included. A child element with any other tag gives no
  text, nor does anything below it, also inside an ignored container.
\<close>

theorem extract_text_content_pieces:
  "extract_text_content (Tag name attrs contents) = str_join '' '' (text_pieces contents)
   \<and> extract_text_content (NavigableString s) = strip s"
  using extract_text_eq(1) [of "Tag name attrs contents"] by simp

text \<open>
  The text inside \<open>span\<close> and \<open>script\<close> is included, the text of \<open>em\<close> is not.
\<close>

theorem extract_text_content_pieces_witness:
  "extract_text_content
     (Tag ''p'' []
        [NavigableString '' a '',
         Tag ''span'' [] [NavigableString ''b'', Tag ''script'' [] [NavigableString ''c'']],
         Tag ''em'' [] [NavigableString ''d''],
         NavigableString ''e''])
   = ''a b c e''"
proof -
  have "str_join '' '' (text_pieces
        [NavigableString '' a '',
         Tag ''span'' [] [NavigableString ''b'', Tag ''script'' [] [NavigableString ''c'']],
         Tag ''em'' [] [NavigableString ''d''],
         NavigableString ''e'']) = ''a b c e''"
    by (simp add: text_pieces_def ignore_tags_def strip_def is_space_def)
  with extract_text_content_pieces [of "''p''" "[]"
        "[NavigableString '' a '',
         Tag ''span'' [] [NavigableString ''b'', Tag ''script'' [] [NavigableString ''c'']],
         Tag ''em'' [] [NavigableString ''d''],
         NavigableString ''e'']", THEN conjunct1]
  show ?thesis by (simp only:)
qed

text \<open>
  C5 as stated fails: \<open>b\<close> is a non-ignored descendant of the ignored container
  \<open>span\<close>, and its text is not in the extracted content.
\<close>

theorem extract_text_skips_elements_counterexample:
  "extract_text_content
     (Tag ''p'' []
        [NavigableString ''Hello'',
         Tag ''span'' [] [Tag ''b'' [] [NavigableString ''world'']]])
   = ''Hello''"
  by (simp add: ignore_tags_def strip_def is_space_def)

lemma structural_ignored: "n \<in> set structural_tags \<Longrightarrow> n \<in> set ignore_tags"
  by (auto simp: structural_tags_def ignore_tags_def)

text \<open>
  C6 (amended). An element whose tag is ignored and not structural (\<open>script\<close>,
  \<open>style\<close>, \<open>meta\<close>, \<open>link\<close>, \<open>title\<close>, \<open>head\<close>, \<open>html\<close>, \<open>body\<close>,
  \<open>span\<close>) yields no chunk, whatever its text. An element whose tag is in none of the
  tag sets yields exactly one chunk, with content type \<open>unknown\<close> and its extracted text
  as content, whether that text is empty or not.
\<close>

theorem unknown_tags_always_emitted:
  "(lower name \<in> set ignore_tags \<and> lower name \<notin> set structural_tags \<longrightarrow>
      process_element py_str bullet (name, attrs, contents) pos = None)
   \<and> (lower name \<notin> set ignore_tags \<and> lower name \<notin> set category_tags \<longrightarrow>
      process_element py_str bullet (name, attrs, contents) pos
        = Some \<lparr>content_type = UNKNOWN,
                content = extract_text_content (Tag name attrs contents),
                tag_name = name, attributes = attrs, level = None, list_type = None,
                table_info = None, position = Some pos\<rparr>)"
proof (intro conjI impI)
  assume "lower name \<in> set ignore_tags \<and> lower name \<notin> set structural_tags"
  then show "process_element py_str bullet (name, attrs, contents) pos = None"
    by (simp add: process_element_def)
next
  assume a: "lower name \<notin> set ignore_tags \<and> lower name \<notin> set category_tags"
  then have "lower name \<notin> set structural_tags"
    using structural_ignored by blast
  with a show "process_element py_str bullet (name, attrs, contents) pos
        = Some \<lparr>content_type = UNKNOWN,
                content = extract_text_content (Tag name attrs contents),
                tag_name = name, attributes = attrs, level = None, list_type = None,
                table_info = None, position = Some pos\<rparr>"
    by (simp add: process_element_def category_tags_def process_unknown_def as_node_def
          del: extract_text_content.simps)
qed

text \<open>
  C6 as stated fails: \<open>br\<close> has no category and no text, and yields a chunk with empty
  content.
\<close>

theorem empty_unknown_tag_counterexample:
  "process_element (\<lambda>v. []) [] (''br'', [], []) 0
     = Some \<lparr>content_type = UNKNOWN, content = [], tag_name = ''br'', attributes = [],
             level = None, list_type = None, table_info = None, position = Some 0\<rparr>"
  by (simp add: process_element_def process_unknown_def as_node_def lower_def lower_char_def
        ignore_tags_def heading_tags_def paragraph_tags_def list_tags_def table_tags_def
        divider_tags_def image_tags_def code_tags_def quote_tags_def form_tags_def nav_tags_def
        footer_tags_def header_tags_def structural_tags_def)

text \<open>
  A \<open>script\<close> yields nothing, an \<open>em\<close> with text yields an unknown chunk.
\<close>

theorem unknown_tags_always_emitted_witness:
  "lower ''script'' \<in> set ignore_tags \<and> lower ''script'' \<notin> set structural_tags
   \<and> process_element (\<lambda>v. []) [] (''script'', [], [NavigableString ''text'']) 0 = None
   \<and> lower ''em'' \<notin> set ignore_tags \<and> lower ''em'' \<notin> set category_tags
   \<and> process_element (\<lambda>v. []) [] (''em'', [], [NavigableString ''text'']) 0
       = Some \<lparr>content_type = UNKNOWN, content = ''text'', tag_name = ''em'', attributes = [],
               level = None, list_type = None, table_info = None, position = Some 0\<rparr>"
proof -
  have l: "lower ''script'' = ''script''" "lower ''em'' = ''em''"
    by (simp_all add: lower_def lower_char_def)
  have d: "lower ''script'' \<in> set ignore_tags \<and> lower ''script'' \<notin> set structural_tags"
    by (simp add: l ignore_tags_def structural_tags_def)
  have e: "lower ''em'' \<notin> set ignore_tags \<and> lower ''em'' \<notin> set category_tags"
    by (simp add: l ignore_tags_def category_tags_def heading_tags_def paragraph_tags_def
          list_tags_def table_tags_def divider_tags_def image_tags_def code_tags_def
          quote_tags_def form_tags_def nav_tags_def footer_tags_def header_tags_def)
  have t: "extract_text_content (Tag ''em'' [] [NavigableString ''text'']) = ''text''"
    by (simp add: strip_def is_space_def)
  have a: "process_element (\<lambda>v. []) [] (''script'', [], [NavigableString ''text'']) 0 = None"
    using unknown_tags_always_emitted
      [of "''script''" "\<lambda>v. []" "[]" "[]" "[NavigableString ''text'']" 0, THEN conjunct1, THEN mp, OF d] .
  have b: "process_element (\<lambda>v. []) [] (''em'', [], [NavigableString ''text'']) 0
       = Some \<lparr>content_type = UNKNOWN, content = ''text'', tag_name = ''em'', attributes = [],
               level = None, list_type = None, table_info = None, position = Some 0\<rparr>"
    using unknown_tags_always_emitted
      [of "''em''" "\<lambda>v. []" "[]" "[]" "[NavigableString ''text'']" 0, THEN conjunct2, THEN mp, OF e]
    by (simp only: t)
  from d e a b show ?thesis
    by (simp only: simp_thms)
qed

end
